theory Spec2Isabelle
  imports Main "HOL-Library.AList"
begin

section \<open>JavaScript values\<close>

text \<open>
  The values the two source files store in profiles and configurations. Only the
  distinctions the code tests are kept: strict equality with \<open>undefined\<close>, and
  truthiness (\<open>!v\<close>). Numbers are integers here; \<open>NaN\<close> is not represented.
\<close>

datatype jsval =
    JUndefined
  | JNull
  | JBool bool
  | JNum int
  | JStr string
  | JArr "jsval list"

fun truthy :: "jsval \<Rightarrow> bool" where
  "truthy JUndefined = False"
| "truthy JNull = False"
| "truthy (JBool b) = b"
| "truthy (JNum n) = (n \<noteq> 0)"
| "truthy (JStr s) = (s \<noteq> [])"
| "truthy (JArr xs) = True"

section \<open>src/configurations/extConfig.ts\<close>

text \<open>
  \<open>WorkspaceConfiguration.get(key)\<close> yields \<open>undefined\<close> for a key that is not set, so a
  configuration is a total function into \<open>jsval\<close>. The bundled \<open>Config\<close> class and
  \<open>Constants.sqlToolsServiceConfigKey\<close> are declared outside the two source files and
  are fields of the record.
\<close>

record ExtConfig =
  config_getSqlToolsConfigValue :: "string \<Rightarrow> jsval"
  extensionConfig :: "string \<Rightarrow> jsval"
  workspaceConfig :: "string \<Rightarrow> jsval"
  sqlToolsServiceConfigKey :: string

definition getExtensionConfig :: "ExtConfig \<Rightarrow> string \<Rightarrow> jsval \<Rightarrow> jsval" where
  "getExtensionConfig c key defaultValue =
     (let configValue = extensionConfig c key
      in if configValue = JUndefined then defaultValue else configValue)"

definition getWorkspaceConfig :: "ExtConfig \<Rightarrow> string \<Rightarrow> jsval \<Rightarrow> jsval" where
  "getWorkspaceConfig c key defaultValue =
     (let configValue = workspaceConfig c key
      in if configValue = JUndefined then defaultValue else configValue)"

text \<open>The template literal \<open>`${Constants.sqlToolsServiceConfigKey}.${configKey}`\<close>.\<close>

definition derivedKey :: "ExtConfig \<Rightarrow> string \<Rightarrow> string" where
  "derivedKey c configKey = sqlToolsServiceConfigKey c @ ''.'' @ configKey"

text \<open>\<open>getExtensionConfig\<close> is called with one argument: the default is \<open>undefined\<close>.\<close>

definition getSqlToolsConfigValue :: "ExtConfig \<Rightarrow> string \<Rightarrow> jsval" where
  "getSqlToolsConfigValue c configKey =
     (let configValue = getExtensionConfig c (derivedKey c configKey) JUndefined
      in if \<not> truthy configValue then config_getSqlToolsConfigValue c configKey
         else configValue)"

section \<open>The connection dialog controller: data\<close>

text \<open>
  The controller class \<open>ConnectionDialogWebviewController\<close>. Interfaces and enums it
  imports are declared in files that are not part of the two sources; the records below
  carry the members the controller reads or writes. Locale texts (\<open>Loc.*\<close>) are
  represented by their names.
\<close>

datatype error = TypeError string | Thrown string

fun getErrorMessage :: "error \<Rightarrow> string" where
  "getErrorMessage (TypeError m) = m"
| "getErrorMessage (Thrown m) = m"

datatype ConnectionInputMode = Parameters | ConnectionString | AzureBrowse

datatype ApiStatus = NotStarted | Loading | Loaded | Error

datatype FormItemType = Input | Dropdown | Checkbox | Password | TextArea

text \<open>
  The members of the enum \<open>AuthenticationType\<close> the controller compares with. They are
  strings at run time, stored in the profile under \<open>authenticationType\<close>.
\<close>

definition SqlLogin :: jsval where "SqlLogin = JStr ''SqlLogin''"
definition AzureMFA :: jsval where "AzureMFA = JStr ''AzureMFA''"

text \<open>
  A profile is a JavaScript object: an association list from property names to values.
  A property that is absent reads as \<open>undefined\<close>; an assignment replaces the value of
  an existing property where it stands and appends a new one. (JavaScript lists
  properties whose names are array indices first; the property names of this program
  are identifiers.)
\<close>

type_synonym profile = "(string \<times> jsval) list"

definition getProp :: "profile \<Rightarrow> string \<Rightarrow> jsval" where
  "getProp p k = (case map_of p k of None \<Rightarrow> JUndefined | Some v \<Rightarrow> v)"

definition setProp :: "profile \<Rightarrow> string \<Rightarrow> jsval \<Rightarrow> profile" where
  "setProp p k v = AList.update k v p"

text \<open>A property name that is \<open>undefined\<close> is converted to the string \<open>"undefined"\<close>.\<close>

fun keyOf :: "string option \<Rightarrow> string" where
  "keyOf None = ''undefined''"
| "keyOf (Some k) = k"

record FormItemOptions =
  opt_displayName :: string
  opt_value :: string

record FormItemValidationState =
  isValid :: bool
  validationMessage :: string

text \<open>
  The validator closures of \<open>completeFormComponents\<close> and the button callbacks of
  \<open>getAzureActionButtons\<close>, named; \<open>runValidator\<close> below gives each validator its body.
\<close>

datatype validator =
    ServerRequired
  | UserRequired
  | AccountRequired
  | TenantRequired
  | ConnectionStringRequired

datatype callback = AzureSignInCallback | RefreshTokenCallback

record FormItemActionButton =
  btn_label :: string
  btn_id :: string
  btn_callback :: callback

text \<open>
  A category label. It is read from the label map of the capabilities, a plain object:
  reading a property the object does not have itself gives the member it inherits from
  \<open>Object.prototype\<close> when the name is one of those, a function or an object and not a
  string.
\<close>

datatype labelval = LabelText string | InheritedMember string

text \<open>
  \<open>ConnectionDialogFormItemSpec\<close>. Every member but \<open>isAdvancedOption\<close> and \<open>hidden\<close> may
  be missing from an object; \<open>hidden\<close> is only tested for truthiness, so a missing
  \<open>hidden\<close> is \<open>False\<close>.
\<close>

record FormItemSpec =
  propertyName :: "string option"
  label :: "string option"
  required :: "bool option"
  itemType :: "FormItemType option"
  tooltip :: "string option"
  options :: "FormItemOptions list option"
  placeholder :: "string option"
  actionButtons :: "FormItemActionButton list option"
  validate :: "validator option"
  validation :: "FormItemValidationState option"
  hidden :: bool
  isAdvancedOption :: bool
  optionCategory :: "string option"
  optionCategoryLabel :: "labelval option"

text \<open>The object \<open>{}\<close>, read as a spec.\<close>

definition emptySpec :: FormItemSpec where
  "emptySpec = \<lparr> propertyName = None, label = None, required = None, itemType = None,
     tooltip = None, options = None, placeholder = None, actionButtons = None,
     validate = None, validation = None, hidden = False, isAdvancedOption = False,
     optionCategory = None, optionCategoryLabel = None \<rparr>"

record ConnectionComponentGroup =
  groupName :: "labelval option"
  group_options :: "string option list"

text \<open>
  The record of components is an association list in insertion order, the order
  \<open>Object.values\<close> follows for property names that are not array indices.
\<close>

record ConnectionComponentsInfo =
  components :: "(string \<times> FormItemSpec) list"
  mainOptions :: "string list"
  topAdvancedOptions :: "string list"
  groupedAdvancedOptions :: "ConnectionComponentGroup option list"

record DialogTenant =
  dt_name :: string
  dt_id :: string

datatype DialogProps =
    TrustServerCertDialog string
  | AddFirewallRuleDialog string string "DialogTenant list"

text \<open>
  \<open>ConnectionDialogWebviewState\<close>, without the lists of saved and recent connections and
  the Azure subscription and server lists, which none of the functions below reads.
\<close>

record state =
  connectionProfile :: profile
  selectedInputMode :: ConnectionInputMode
  connectionComponents :: ConnectionComponentsInfo
  connectionStatus :: ApiStatus
  formError :: string
  dialog :: "DialogProps option"

section \<open>Collaborators\<close>

record CategoryValue =
  cv_displayName :: "string option"
  cv_name :: string

record ConnectionOption =
  co_name :: string
  co_displayName :: string
  co_description :: string
  co_groupName :: string
  co_valueType :: string
  co_isRequired :: bool
  co_categoryValues :: "CategoryValue list option"

record CapabilitiesResult =
  cap_options :: "ConnectionOption list"
  groupDisplayNames :: "string \<rightharpoonup> string"

record ITenant =
  tenant_displayName :: string
  tenant_id :: string

record DisplayInfo =
  di_displayName :: string
  userId :: string

record IAccount =
  displayInfo :: "DisplayInfo option"
  key_id :: string
  tenants :: "ITenant option list option option"

text \<open>
  In \<open>IAccount\<close>, \<open>tenants\<close> is \<open>None\<close> when the account has no \<open>properties\<close> object,
  \<open>Some None\<close> when \<open>properties.tenants\<close> is missing, and a list whose elements may be
  \<open>undefined\<close> otherwise.
\<close>

record Session =
  token :: string
  expiresOn :: int

record ConnectionCompleteParams =
  errorMessage :: string
  errorNumber :: int

record FirewallRuleResult =
  fw_result :: bool
  ipAddress :: string

record AzureTenant =
  at_displayName :: string
  at_tenantId :: string

record AzureSubscription =
  sub_tenantId :: string
  sub_getToken :: "error + string"
  sub_getSession :: "error + string"

record Auth =
  auth_getTenants :: "error + AzureTenant list"
  auth_getSubscriptions :: "bool \<Rightarrow> error + AzureSubscription list"

record FirewallRuleRequest =
  fr_account :: IAccount
  firewallRuleName :: string
  startIpAddress :: string
  endIpAddress :: string
  serverName :: jsval
  securityTokenMappings :: "(string \<times> string) list"

record CreateFirewallRuleResponse =
  cf_result :: bool
  cf_errorMessage :: string

text \<open>
  What the controller calls and does not define: each awaited call is its outcome, an
  error when the promise rejects. The two error codes are constants of
  \<open>connectionConstants\<close>. \<open>saveAndOpenSession\<close> stands for the calls of the success path
  of \<open>connectHelper\<close> up to \<open>updateLoadedConnections\<close>, and \<open>revealAndClose\<close> for those
  after the status is set to \<open>Loaded\<close>; they write to no member of \<open>state\<close> above.
\<close>

record env =
  getCapabilities :: "error + CapabilitiesResult"
  getAccounts_service :: "error + IAccount option list"
  getAccountSecurityToken :: "IAccount \<Rightarrow> error + Session"
  isTokenInValid :: "string \<Rightarrow> int \<Rightarrow> bool"
  validateAndSaveProfileFromDialog :: "profile \<Rightarrow> error + ConnectionCompleteParams"
  handleFirewallRule :: "int \<Rightarrow> string \<Rightarrow> error + FirewallRuleResult"
  confirmVscodeAzureSignin :: "error + Auth option"
  createFirewallRule :: "FirewallRuleRequest \<Rightarrow> error + CreateFirewallRuleResponse"
  connectionCertValidationFailedErrorCode :: int
  connectionFirewallErrorCode :: int
  saveAndOpenSession :: "profile \<Rightarrow> error + unit"
  revealAndClose :: "error + unit"

section \<open>Effects\<close>

text \<open>
  What a function does besides returning: it writes to \<open>this.state\<close>, it posts a snapshot
  of the state to the view (\<open>updateState\<close>), and it logs, reports telemetry and calls
  the remote services. The reducers receive the controller's own state object, so
  \<open>state\<close> and \<open>this.state\<close> are one object.
\<close>

datatype event =
    LoggerLog string
  | ConsoleError string
  | ConsoleWarn string
  | ConsoleDebug string
  | ErrorEvent string string
  | ActionEvent string
  | RemoteConnect profile
  | RemoteCreateFirewallRule FirewallRuleRequest

record ctrl =
  this_state :: state
  published :: "state list"
  events :: "event list"

type_synonym 'a M = "ctrl \<Rightarrow> (error + 'a) \<times> ctrl"

definition ret :: "'a \<Rightarrow> 'a M" where
  "ret x = (\<lambda>s. (Inr x, s))"

definition throw :: "error \<Rightarrow> 'a M" where
  "throw e = (\<lambda>s. (Inl e, s))"

definition bnd :: "'a M \<Rightarrow> ('a \<Rightarrow> 'b M) \<Rightarrow> 'b M" where
  "bnd m f = (\<lambda>s. case m s of (Inl e, s') \<Rightarrow> (Inl e, s') | (Inr x, s') \<Rightarrow> f x s')"

definition seq :: "unit M \<Rightarrow> 'b M \<Rightarrow> 'b M" where
  "seq m n = bnd m (\<lambda>_. n)"

definition try_catch :: "'a M \<Rightarrow> (error \<Rightarrow> 'a M) \<Rightarrow> 'a M" where
  "try_catch m h = (\<lambda>s. case m s of (Inl e, s') \<Rightarrow> h e s' | (Inr x, s') \<Rightarrow> (Inr x, s'))"

definition await :: "error + 'a \<Rightarrow> 'a M" where
  "await r = (\<lambda>s. (r, s))"

definition gets :: "(state \<Rightarrow> 'a) \<Rightarrow> 'a M" where
  "gets f = (\<lambda>s. (Inr (f (this_state s)), s))"

definition modify :: "(state \<Rightarrow> state) \<Rightarrow> unit M" where
  "modify f = (\<lambda>s. (Inr (), s\<lparr>this_state := f (this_state s)\<rparr>))"

definition emit :: "event \<Rightarrow> unit M" where
  "emit e = (\<lambda>s. (Inr (), s\<lparr>events := events s @ [e]\<rparr>))"

definition updateState :: "unit M" where
  "updateState = (\<lambda>s. (Inr (), s\<lparr>published := published s @ [this_state s]\<rparr>))"

section \<open>The connection dialog controller: functions\<close>

text \<open>\<open>Array.prototype.find\<close> and \<open>map\<close> with a callback that may throw.\<close>

fun find_js :: "('a \<Rightarrow> error + bool) \<Rightarrow> 'a list \<Rightarrow> error + 'a option" where
  "find_js p [] = Inr None"
| "find_js p (x # xs) =
     (case p x of
        Inl e \<Rightarrow> Inl e
      | Inr b \<Rightarrow> if b then Inr (Some x) else find_js p xs)"

fun map_js :: "('a \<Rightarrow> error + 'b) \<Rightarrow> 'a list \<Rightarrow> error + 'b list" where
  "map_js f [] = Inr []"
| "map_js f (x # xs) =
     (case f x of
        Inl e \<Rightarrow> Inl e
      | Inr y \<Rightarrow> (case map_js f xs of Inl e \<Rightarrow> Inl e | Inr ys \<Rightarrow> Inr (y # ys)))"

text \<open>\<open>names.includes(n)\<close> for a name that may be \<open>undefined\<close>; the lists hold strings only.\<close>

definition includes_js :: "string list \<Rightarrow> string option \<Rightarrow> bool" where
  "includes_js names n = (case n of None \<Rightarrow> False | Some k \<Rightarrow> k \<in> set names)"

definition authenticationType :: "state \<Rightarrow> jsval" where
  "authenticationType st = getProp (connectionProfile st) ''authenticationType''"

definition accountId :: "state \<Rightarrow> jsval" where
  "accountId st = getProp (connectionProfile st) ''accountId''"

text \<open>\<open>getAccounts\<close>: the options of the account dropdown; any failure gives no options.\<close>

definition getAccounts :: "env \<Rightarrow> FormItemOptions list M" where
  "getAccounts env =
     try_catch
       (bnd (await (getAccounts_service env)) (\<lambda>accounts.
          await (map_js (\<lambda>account.
            case account of
              None \<Rightarrow> Inl (TypeError ''account is undefined'')
            | Some a \<Rightarrow>
                (case displayInfo a of
                   None \<Rightarrow> Inl (TypeError ''displayInfo is undefined'')
                 | Some d \<Rightarrow> Inr \<lparr> opt_displayName = di_displayName d, opt_value = userId d \<rparr>))
            accounts)))
       (\<lambda>error.
          seq (emit (ConsoleError (''Error loading Azure accounts: '' @ getErrorMessage error)))
         (seq (emit (ErrorEvent ''LoadAzureAccountsForEntraAuth'' []))
              (ret [])))"

text \<open>
  \<open>getTenants\<close>. The account is the first whose \<open>displayInfo?.userId\<close> is strictly equal
  to the argument; an \<open>undefined\<close> list element or a missing \<open>properties\<close> object throws
  inside the \<open>try\<close>, and the \<open>catch\<close> returns the empty list. \<open>tenantLookup\<close> is the body
  of the \<open>try\<close>, which awaits one call and writes to nothing.
\<close>

definition userIdOf :: "IAccount \<Rightarrow> jsval" where
  "userIdOf a = (case displayInfo a of None \<Rightarrow> JUndefined | Some d \<Rightarrow> JStr (userId d))"

definition tenantLookup :: "env \<Rightarrow> jsval \<Rightarrow> error + FormItemOptions list" where
  "tenantLookup env accId =
     (case getAccounts_service env of
        Inl e \<Rightarrow> Inl e
      | Inr accounts \<Rightarrow>
          (case find_js (\<lambda>account.
                  case account of
                    None \<Rightarrow> Inl (TypeError ''account is undefined'')
                  | Some a \<Rightarrow> Inr (userIdOf a = accId)) accounts of
             Inl e \<Rightarrow> Inl e
           | Inr None \<Rightarrow> Inr []
           | Inr (Some None) \<Rightarrow> Inr []
           | Inr (Some (Some account)) \<Rightarrow>
               (case tenants account of
                  None \<Rightarrow> Inl (TypeError ''properties is undefined'')
                | Some None \<Rightarrow> Inr []
                | Some (Some ts) \<Rightarrow>
                    map_js (\<lambda>tenant.
                      case tenant of
                        None \<Rightarrow> Inl (TypeError ''tenant is undefined'')
                      | Some t \<Rightarrow> Inr \<lparr> opt_displayName = tenant_displayName t,
                                         opt_value = tenant_id t \<rparr>) ts)))"

definition getTenants :: "env \<Rightarrow> jsval \<Rightarrow> FormItemOptions list M" where
  "getTenants env accId =
     try_catch
       (await (tenantLookup env accId))
       (\<lambda>error.
          seq (emit (ConsoleError (''Error loading Azure tenants: '' @ getErrorMessage error)))
         (seq (emit (ErrorEvent ''LoadAzureTenantsForEntraAuth'' []))
              (ret [])))"

definition setComponents ::
  "((string \<times> FormItemSpec) list \<Rightarrow> (string \<times> FormItemSpec) list) \<Rightarrow> state \<Rightarrow> state" where
  "setComponents f st =
     st\<lparr>connectionComponents :=
          (connectionComponents st)\<lparr>components := f (components (connectionComponents st))\<rparr>\<rparr>"

text \<open>
  \<open>updateItemVisibility\<close>: \<open>hiddenProperties\<close> is built from the input mode, the
  authentication type and the tenants of the current account; then every component's
  \<open>hidden\<close> is set to whether its \<open>propertyName\<close> is in that list.
\<close>

definition updateItemVisibility :: "env \<Rightarrow> unit M" where
  "updateItemVisibility env =
     bnd (gets (\<lambda>st. st)) (\<lambda>st.
     bnd (if selectedInputMode st = Parameters \<or> selectedInputMode st = AzureBrowse then
            (let h1 = (if authenticationType st \<noteq> SqlLogin
                       then [''user'', ''password'', ''savePassword''] else []);
                 h2 = h1 @ (if authenticationType st \<noteq> AzureMFA
                            then [''accountId'', ''tenantId''] else [])
             in if authenticationType st = AzureMFA then
                  bnd (getTenants env (accountId st)) (\<lambda>ts.
                    ret (if length ts = 1 then h2 @ [''tenantId''] else h2))
                else ret h2)
          else ret []) (\<lambda>hiddenProperties.
     modify (setComponents (map (\<lambda>(k, component).
       (k, component\<lparr>hidden := includes_js hiddenProperties (propertyName component)\<rparr>))))))"

definition getActiveFormComponents :: "state \<Rightarrow> string list" where
  "getActiveFormComponents st =
     (if selectedInputMode st = Parameters \<or> selectedInputMode st = AzureBrowse
      then mainOptions (connectionComponents st)
      else [''connectionString'', ''profileName''])"

definition component :: "state \<Rightarrow> string \<Rightarrow> FormItemSpec option" where
  "component st x = map_of (components (connectionComponents st)) x"

definition getFormComponent :: "state \<Rightarrow> string \<Rightarrow> FormItemSpec option" where
  "getFormComponent st name =
     (if name \<in> set (getActiveFormComponents st) then component st name else None)"

subsection \<open>Compiling the schema\<close>

definition baseSpec :: "ConnectionOption \<Rightarrow> FormItemType \<Rightarrow> FormItemSpec" where
  "baseSpec connOption t =
     emptySpec\<lparr> propertyName := Some (co_name connOption),
                label := Some (co_displayName connOption),
                required := Some (co_isRequired connOption),
                itemType := Some t,
                tooltip := Some (co_description connOption) \<rparr>"

text \<open>
  \<open>convertToFormComponent\<close>. The \<open>default\<close> branch logs and reports, and falls off the
  end of the function: the result is \<open>undefined\<close>, \<open>None\<close> here. The \<open>category\<close> branch
  throws when the descriptor has no \<open>categoryValues\<close>.
\<close>

definition convertToFormComponent :: "ConnectionOption \<Rightarrow> FormItemSpec option M" where
  "convertToFormComponent connOption =
     (if co_valueType connOption = ''boolean'' then ret (Some (baseSpec connOption Checkbox))
      else if co_valueType connOption = ''string'' then ret (Some (baseSpec connOption Input))
      else if co_valueType connOption = ''password'' then ret (Some (baseSpec connOption Password))
      else if co_valueType connOption = ''number'' then ret (Some (baseSpec connOption Input))
      else if co_valueType connOption = ''category'' then
        (case co_categoryValues connOption of
           None \<Rightarrow> throw (TypeError ''categoryValues is undefined'')
         | Some vs \<Rightarrow>
             ret (Some ((baseSpec connOption Dropdown)
               \<lparr>options := Some (map (\<lambda>v.
                   \<lparr> opt_displayName = (case cv_displayName v of None \<Rightarrow> cv_name v | Some d \<Rightarrow> d),
                     opt_value = cv_name v \<rparr>) vs)\<rparr>)))
      else
        (let error = ''Unhandled connection option type: '' @ co_valueType connOption
         in seq (emit (LoggerLog error))
           (seq (emit (ErrorEvent ''LoadConnectionProperties'' error))
                (ret None))))"

definition mainOptionNames :: "string list" where
  "mainOptionNames =
     [''server'', ''authenticationType'', ''user'', ''password'', ''savePassword'',
      ''accountId'', ''tenantId'', ''database'', ''trustServerCertificate'', ''encrypt'',
      ''profileName'']"

text \<open>
  \<open>groupNames[name]\<close>. The label map arrives as JSON, so it is a plain object whose
  prototype is \<open>Object.prototype\<close>: \<open>groupDisplayNames\<close> holds its own properties, and a
  name it does not hold is looked up among the members of \<open>Object.prototype\<close> (those
  of the language, none added). The result is \<open>None\<close> for \<open>undefined\<close>.
\<close>

definition objectPrototypeMembers :: "string list" where
  "objectPrototypeMembers =
     [''constructor'', ''__defineGetter__'', ''__defineSetter__'', ''hasOwnProperty'',
      ''__lookupGetter__'', ''__lookupSetter__'', ''isPrototypeOf'', ''propertyIsEnumerable'',
      ''toString'', ''valueOf'', ''__proto__'', ''toLocaleString'']"

definition readProperty :: "(string \<rightharpoonup> string) \<Rightarrow> string \<Rightarrow> labelval option" where
  "readProperty groupNames name =
     (case groupNames name of
        Some l \<Rightarrow> Some (LabelText l)
      | None \<Rightarrow> if name \<in> set objectPrototypeMembers then Some (InheritedMember name)
                else None)"

text \<open>
  The object literal of the loop body: the spread of \<open>undefined\<close> contributes no
  property, so the three members written after it are all the object has. The label is
  \<open>groupNames[option.groupName] ?? option.groupName\<close>.
\<close>

definition optionEntry ::
  "(string \<rightharpoonup> string) \<Rightarrow> ConnectionOption \<Rightarrow> FormItemSpec option \<Rightarrow> FormItemSpec" where
  "optionEntry groupNames option converted =
     (case converted of None \<Rightarrow> emptySpec | Some c \<Rightarrow> c)
       \<lparr> isAdvancedOption := co_name option \<notin> set mainOptionNames,
         optionCategory := Some (co_groupName option),
         optionCategoryLabel :=
           Some (case readProperty groupNames (co_groupName option) of
                   None \<Rightarrow> LabelText (co_groupName option)
                 | Some l \<Rightarrow> l) \<rparr>"

fun compileOptions ::
  "(string \<rightharpoonup> string) \<Rightarrow> ConnectionOption list \<Rightarrow> (string \<times> FormItemSpec) list \<Rightarrow>
   ctrl \<Rightarrow> (error + (string \<times> FormItemSpec) list) \<times> ctrl" where
  "compileOptions groupNames [] result s = ret result s"
| "compileOptions groupNames (option # rest) result s =
     (case try_catch
             (bnd (convertToFormComponent option) (\<lambda>converted.
                ret (AList.update (co_name option) (optionEntry groupNames option converted) result)))
             (\<lambda>err.
                seq (emit (ConsoleError (''Error loading connection option '' @ [CHR 0x27]
                                          @ co_name option @ [CHR 0x27]
                                          @ '': '' @ getErrorMessage err)))
               (seq (emit (ErrorEvent ''LoadConnectionProperties'' (getErrorMessage err)))
                    (ret result))) s of
        (Inl e, s') \<Rightarrow> (Inl e, s')
      | (Inr result', s') \<Rightarrow> compileOptions groupNames rest result' s')"

definition signInButton :: FormItemActionButton where
  "signInButton = \<lparr> btn_label = ''Loc.signIn'', btn_id = ''azureSignIn'',
                    btn_callback = AzureSignInCallback \<rparr>"

definition refreshTokenButton :: FormItemActionButton where
  "refreshTokenButton = \<lparr> btn_label = ''refreshTokenLabel'', btn_id = ''refreshToken'',
                          btn_callback = RefreshTokenCallback \<rparr>"

text \<open>
  \<open>getAzureActionButtons\<close> reads the profile and awaits two calls; it writes to nothing,
  so it is a function of the state. Here the account is looked up with
  \<open>account.displayInfo.userId\<close>, which throws on an account without \<open>displayInfo\<close>, and
  nothing catches.
\<close>

definition findAccount :: "env \<Rightarrow> state \<Rightarrow> error + IAccount option option" where
  "findAccount env st =
     (case getAccounts_service env of
        Inl e \<Rightarrow> Inl e
      | Inr accounts \<Rightarrow>
          find_js (\<lambda>account.
            case account of
              None \<Rightarrow> Inl (TypeError ''account is undefined'')
            | Some a \<Rightarrow>
                (case displayInfo a of
                   None \<Rightarrow> Inl (TypeError ''displayInfo is undefined'')
                 | Some d \<Rightarrow> Inr (JStr (userId d) = accountId st))) accounts)"

definition getAzureActionButtons :: "env \<Rightarrow> state \<Rightarrow> error + FormItemActionButton list" where
  "getAzureActionButtons env st =
     (if authenticationType st = AzureMFA \<and> truthy (accountId st) then
        (case findAccount env st of
           Inl e \<Rightarrow> Inl e
         | Inr (Some (Some account)) \<Rightarrow>
             (case getAccountSecurityToken env account of
                Inl e \<Rightarrow> Inl e
              | Inr session \<Rightarrow>
                  if isTokenInValid env (token session) (expiresOn session)
                  then Inr [signInButton, refreshTokenButton]
                  else Inr [signInButton])
         | Inr _ \<Rightarrow> Inr [signInButton])
      else Inr [signInButton])"

definition valid :: FormItemValidationState where
  "valid = \<lparr> isValid = True, validationMessage = [] \<rparr>"

definition invalid :: "string \<Rightarrow> FormItemValidationState" where
  "invalid m = \<lparr> isValid = False, validationMessage = m \<rparr>"

text \<open>The bodies of the validator closures; they read \<open>this.state\<close> when they run.\<close>

fun runValidator :: "state \<Rightarrow> validator \<Rightarrow> jsval \<Rightarrow> FormItemValidationState" where
  "runValidator st ServerRequired v =
     (if authenticationType st = SqlLogin \<and> \<not> truthy v
      then invalid ''Loc.serverIsRequired'' else valid)"
| "runValidator st UserRequired v =
     (if authenticationType st = SqlLogin \<and> \<not> truthy v
      then invalid ''Loc.usernameIsRequired'' else valid)"
| "runValidator st AccountRequired v =
     (if authenticationType st = AzureMFA \<and> \<not> truthy v
      then invalid ''Loc.azureAccountIsRequired'' else valid)"
| "runValidator st TenantRequired v =
     (if authenticationType st = AzureMFA \<and> \<not> truthy v
      then invalid ''Loc.tenantIdIsRequired'' else valid)"
| "runValidator st ConnectionStringRequired v =
     (if selectedInputMode st = ConnectionString \<and> \<not> truthy v
      then invalid ''Loc.connectionStringIsRequired'' else valid)"

definition builtinSpec :: "string \<Rightarrow> string \<Rightarrow> bool \<Rightarrow> FormItemType \<Rightarrow> FormItemSpec" where
  "builtinSpec name lbl req t =
     emptySpec\<lparr> propertyName := Some name, label := Some lbl, required := Some req,
                itemType := Some t, isAdvancedOption := False \<rparr>"

text \<open>
  \<open>completeFormComponents\<close>: the five built-in fields are written into the record, then
  \<open>components["server"].validate\<close> and \<open>components["user"].validate\<close> are assigned, which
  throws when the record has no such component.
\<close>

definition setValidate ::
  "string \<Rightarrow> validator \<Rightarrow> (string \<times> FormItemSpec) list \<Rightarrow> (string \<times> FormItemSpec) list M" where
  "setValidate name v comps =
     (case map_of comps name of
        None \<Rightarrow> throw (TypeError (''components.'' @ name @ '' is undefined''))
      | Some c \<Rightarrow> ret (AList.update name (c\<lparr>validate := Some v\<rparr>) comps))"

definition completeFormComponents ::
  "env \<Rightarrow> (string \<times> FormItemSpec) list \<Rightarrow> (string \<times> FormItemSpec) list M" where
  "completeFormComponents env comps =
     (let c1 = AList.update ''profileName''
                 (builtinSpec ''profileName'' ''Loc.profileName'' False Input) comps;
          c2 = AList.update ''savePassword''
                 (builtinSpec ''savePassword'' ''Loc.savePassword'' False Checkbox) c1
      in bnd (getAccounts env) (\<lambda>accounts.
         bnd (bnd (gets (\<lambda>st. st)) (\<lambda>st. await (getAzureActionButtons env st))) (\<lambda>buttons.
         (let c3 = AList.update ''accountId''
                     ((builtinSpec ''accountId'' ''Loc.azureAccount'' True Dropdown)
                        \<lparr> options := Some accounts,
                          placeholder := Some ''Loc.selectAnAccount'',
                          actionButtons := Some buttons,
                          validate := Some AccountRequired \<rparr>) c2;
              c4 = AList.update ''tenantId''
                     ((builtinSpec ''tenantId'' ''Loc.tenantId'' True Dropdown)
                        \<lparr> options := Some [],
                          placeholder := Some ''Loc.selectATenant'',
                          validate := Some TenantRequired,
                          hidden := True \<rparr>) c3;
              c5 = AList.update ''connectionString''
                     ((builtinSpec ''connectionString'' ''Loc.connectionString'' True TextArea)
                        \<lparr> validate := Some ConnectionStringRequired \<rparr>) c4
          in bnd (setValidate ''server'' ServerRequired c5) (\<lambda>c6.
             setValidate ''user'' UserRequired c6)))))"

definition generateConnectionComponents :: "env \<Rightarrow> (string \<times> FormItemSpec) list M" where
  "generateConnectionComponents env =
     bnd (await (getCapabilities env)) (\<lambda>capabilitiesResult.
     bnd (compileOptions (groupDisplayNames capabilitiesResult)
            (cap_options capabilitiesResult) []) (\<lambda>result.
     completeFormComponents env result))"

subsection \<open>Grouping the advanced options\<close>






subsection \<open>Validation\<close>

definition setComponent :: "string \<Rightarrow> FormItemSpec \<Rightarrow> state \<Rightarrow> state" where
  "setComponent x c = setComponents (AList.update x c)"

text \<open>
  The whole-form branch of \<open>validateConnectionProfile\<close>: the active names are mapped to
  their components and \<open>forEach\<close> visits them in order. A name without a component
  gives \<open>undefined\<close>, and reading \<open>c.hidden\<close> then throws.
\<close>

fun validateAll ::
  "profile \<Rightarrow> string list \<Rightarrow> string option list \<Rightarrow> ctrl \<Rightarrow>
   (error + string option list) \<times> ctrl" where
  "validateAll conn [] erroredInputs s = ret erroredInputs s"
| "validateAll conn (x # xs) erroredInputs s =
     (case component (this_state s) x of
        None \<Rightarrow> throw (TypeError (''components.'' @ x @ '' is undefined'')) s
      | Some c \<Rightarrow>
          if hidden c then
            validateAll conn xs erroredInputs
              (s\<lparr>this_state := setComponent x (c\<lparr>validation := Some valid\<rparr>) (this_state s)\<rparr>)
          else
            (case validate c of
               None \<Rightarrow> validateAll conn xs erroredInputs s
             | Some v \<Rightarrow>
                 (let r = runValidator (this_state s) v
                            (getProp conn (keyOf (propertyName c)))
                  in validateAll conn xs
                       (if \<not> isValid r then erroredInputs @ [propertyName c] else erroredInputs)
                       (s\<lparr>this_state := setComponent x (c\<lparr>validation := Some r\<rparr>) (this_state s)\<rparr>))))"

text \<open>
  \<open>validateConnectionProfile\<close>; the optional \<open>propertyName\<close> is \<open>None\<close> when the call
  gives none (an empty name is falsy too).
\<close>

definition validateConnectionProfile ::
  "profile \<Rightarrow> string option \<Rightarrow> string option list M" where
  "validateConnectionProfile conn propName =
     (case propName of
        Some name \<Rightarrow>
          if name \<noteq> [] then
            bnd (gets (\<lambda>st. st)) (\<lambda>st.
              case getFormComponent st name of
                None \<Rightarrow> ret []
              | Some c \<Rightarrow>
                  (case validate c of
                     None \<Rightarrow> ret []
                   | Some v \<Rightarrow>
                       (let r = runValidator st v (getProp conn name)
                        in seq (modify (setComponent name (c\<lparr>validation := Some r\<rparr>)))
                               (ret (if \<not> isValid r then [propertyName c] else [])))))
          else bnd (gets getActiveFormComponents) (\<lambda>names. validateAll conn names [])
      | None \<Rightarrow> bnd (gets getActiveFormComponents) (\<lambda>names. validateAll conn names []))"

fun clearValidation :: "string list \<Rightarrow> ctrl \<Rightarrow> (error + unit) \<times> ctrl" where
  "clearValidation [] s = ret () s"
| "clearValidation (x # xs) s =
     (case component (this_state s) x of
        None \<Rightarrow> throw (TypeError (''components.'' @ x @ '' is undefined'')) s
      | Some c \<Rightarrow>
          clearValidation xs
            (s\<lparr>this_state := setComponent x (c\<lparr>validation := None\<rparr>) (this_state s)\<rparr>))"

definition clearFormError :: "unit M" where
  "clearFormError =
     seq (modify (\<lambda>st. st\<lparr>formError := []\<rparr>))
         (bnd (gets getActiveFormComponents) clearValidation)"

subsection \<open>Cleaning a profile\<close>

definition clearHidden :: "FormItemSpec \<Rightarrow> profile \<Rightarrow> profile" where
  "clearHidden option connection =
     (if hidden option then setProp connection (keyOf (propertyName option)) JUndefined
      else connection)"

text \<open>The callback of \<open>Object.keys(connection).forEach\<close>, on one property.\<close>

definition clearUnlessConnectionString :: "string \<times> jsval \<Rightarrow> string \<times> jsval" where
  "clearUnlessConnectionString =
     (\<lambda>(key, v). if key \<noteq> ''connectionString'' \<and> key \<noteq> ''profileName''
                 then (key, JUndefined) else (key, v))"

definition cleanConnection :: "state \<Rightarrow> profile \<Rightarrow> profile" where
  "cleanConnection st connection =
     (let c1 = fold clearHidden (map snd (components (connectionComponents st))) connection
      in if selectedInputMode st = Parameters \<or> selectedInputMode st = AzureBrowse then
           setProp c1 ''connectionString'' JUndefined
         else if selectedInputMode st = ConnectionString then
           map clearUnlessConnectionString c1
         else c1)"

subsection \<open>Connecting\<close>

definition toDialogTenant :: "AzureTenant \<Rightarrow> DialogTenant" where
  "toDialogTenant t = \<lparr> dt_name = at_displayName t, dt_id = at_tenantId t \<rparr>"

definition handleConnectionErrorCodes :: "env \<Rightarrow> ConnectionCompleteParams \<Rightarrow> unit M" where
  "handleConnectionErrorCodes env result =
     (if errorNumber result = connectionCertValidationFailedErrorCode env then
        seq (modify (\<lambda>st. st\<lparr>connectionStatus := Error\<rparr>))
            (modify (\<lambda>st. st\<lparr>dialog := Some (TrustServerCertDialog (errorMessage result))\<rparr>))
      else if errorNumber result = connectionFirewallErrorCode env then
        seq (modify (\<lambda>st. st\<lparr>connectionStatus := Error\<rparr>))
       (bnd (await (handleFirewallRule env (errorNumber result) (errorMessage result)))
          (\<lambda>handleFirewallErrorResult.
        bnd (if \<not> fw_result handleFirewallErrorResult then
               seq (emit (ErrorEvent ''AddFirewallRule'' (errorMessage result)))
                   (ret ''0.0.0.0'')
             else ret (ipAddress handleFirewallErrorResult)) (\<lambda>clientIp.
        bnd (await (confirmVscodeAzureSignin env)) (\<lambda>auth.
        case auth of
          None \<Rightarrow> throw (TypeError ''auth is undefined'')
        | Some a \<Rightarrow>
            bnd (await (auth_getTenants a)) (\<lambda>ts.
              modify (\<lambda>st. st\<lparr>dialog :=
                Some (AddFirewallRuleDialog (errorMessage result) clientIp
                        (map toDialogTenant ts))\<rparr>))))))
      else
        seq (modify (\<lambda>st. st\<lparr>formError := errorMessage result\<rparr>))
       (seq (modify (\<lambda>st. st\<lparr>connectionStatus := Error\<rparr>))
            (emit (ActionEvent ''CreateConnection''))))"

text \<open>
  \<open>connectHelper\<close>. The inner \<open>try\<close>, \<open>connectAttempt\<close>, yields whether the function has
  returned from inside it (an error response, or the \<open>catch\<close>); the calls after it are
  the success path. The function returns the state, which is the controller's state
  after the run.
\<close>

definition connectAttempt :: "env \<Rightarrow> profile \<Rightarrow> bool M" where
  "connectAttempt env cleanedConnection =
     try_catch
       (seq (emit (RemoteConnect cleanedConnection))
       (bnd (await (validateAndSaveProfileFromDialog env cleanedConnection)) (\<lambda>result.
          if errorMessage result \<noteq> [] then
            seq (handleConnectionErrorCodes env result) (ret True)
          else ret False)))
       (\<lambda>error.
          seq (modify (\<lambda>st. st\<lparr>formError := getErrorMessage error\<rparr>))
         (seq (modify (\<lambda>st. st\<lparr>connectionStatus := Error\<rparr>))
         (seq (emit (ErrorEvent ''CreateConnection'' []))
              (ret True))))"

text \<open>
  \<open>Array.prototype.join\<close> with the separator \<open>", "\<close>; an \<open>undefined\<close> element gives the
  empty string.
\<close>

fun join_js :: "string option list \<Rightarrow> string" where
  "join_js [] = []"
| "join_js [x] = (case x of None \<Rightarrow> [] | Some n \<Rightarrow> n)"
| "join_js (x # y # ys) = (case x of None \<Rightarrow> [] | Some n \<Rightarrow> n) @ '', '' @ join_js (y # ys)"

definition inputErrorsWarning :: "string option list \<Rightarrow> event" where
  "inputErrorsWarning erroredInputs =
     ConsoleWarn (''One more more inputs have errors: '' @ join_js erroredInputs)"

text \<open>What \<open>connectHelper\<close> does once validation has found no invalid input.\<close>

definition connectValidated :: "env \<Rightarrow> profile \<Rightarrow> unit M" where
  "connectValidated env cleanedConnection =
     try_catch
       (bnd (connectAttempt env cleanedConnection) (\<lambda>returned.
          if returned then ret ()
          else
            seq (emit (ActionEvent ''CreateConnection''))
           (bnd (gets connectionProfile) (\<lambda>p.
            seq (await (saveAndOpenSession env p))
           (seq updateState
           (seq (modify (\<lambda>st. st\<lparr>connectionStatus := Loaded\<rparr>))
                (await (revealAndClose env))))))))
       (\<lambda>error.
          seq (modify (\<lambda>st. st\<lparr>connectionStatus := Error\<rparr>))
              (emit (ErrorEvent ''CreateConnection'' (getErrorMessage error))))"

definition connectHelper :: "env \<Rightarrow> unit M" where
  "connectHelper env =
     seq clearFormError
    (seq (modify (\<lambda>st. st\<lparr>connectionStatus := Loading\<rparr>))
    (seq updateState
    (bnd (gets (\<lambda>st. cleanConnection st (connectionProfile st))) (\<lambda>cleanedConnection.
     bnd (validateConnectionProfile cleanedConnection None) (\<lambda>erroredInputs.
       if length erroredInputs > 0 then
         seq (modify (\<lambda>st. st\<lparr>connectionStatus := Error\<rparr>))
             (emit (inputErrorsWarning erroredInputs))
       else connectValidated env cleanedConnection)))))"

subsection \<open>Adding a firewall rule\<close>

datatype IpOrRange = SingleIp string | IpRange string string

record AddFirewallRulePayload =
  payload_name :: string
  payload_ip :: IpOrRange
  payload_tenantId :: string

text \<open>\<open>constructAzureAccountForTenant\<close> awaits four calls and writes to nothing.\<close>

definition constructAzureAccountForTenant ::
  "env \<Rightarrow> string \<Rightarrow> error + (IAccount \<times> (string \<times> string) list)" where
  "constructAzureAccountForTenant env tenantId =
     (case confirmVscodeAzureSignin env of
        Inl e \<Rightarrow> Inl e
      | Inr None \<Rightarrow> Inl (TypeError ''auth is undefined'')
      | Inr (Some a) \<Rightarrow>
          (case auth_getSubscriptions a False of
             Inl e \<Rightarrow> Inl e
           | Inr subs \<Rightarrow>
               (case filter (\<lambda>s. sub_tenantId s = tenantId) subs of
                  [] \<Rightarrow> Inl (Thrown (''Loc.errorLoadingAzureAccountInfoForTenantId '' @ tenantId))
                | sub # _ \<Rightarrow>
                    (case sub_getToken sub of
                       Inl e \<Rightarrow> Inl e
                     | Inr tok \<Rightarrow>
                         (case sub_getSession sub of
                            Inl e \<Rightarrow> Inl e
                          | Inr lbl \<Rightarrow>
                              Inr (\<lparr> displayInfo = Some \<lparr> di_displayName = lbl, userId = lbl \<rparr>,
                                     key_id = lbl,
                                     tenants = Some (Some [Some \<lparr> tenant_displayName = sub_tenantId sub,
                                                                   tenant_id = sub_tenantId sub \<rparr>]) \<rparr>,
                                   [(sub_tenantId sub, tok)]))))))"

definition ruleText :: "string \<Rightarrow> string \<Rightarrow> string \<Rightarrow> string" where
  "ruleText name startIp endIp =
     [CHR 0x22] @ name @ [CHR 0x22] @ '' ('' @ startIp @ '' - '' @ endIp @ '')''"

definition errorCreatingFirewallRule :: "string \<Rightarrow> string \<Rightarrow> string" where
  "errorCreatingFirewallRule rule msg = ''Loc.errorCreatingFirewallRule '' @ rule @ '': '' @ msg"

text \<open>The destructuring of \<open>payload.ip\<close>, a string or a range.\<close>

fun ipBounds :: "IpOrRange \<Rightarrow> string \<times> string" where
  "ipBounds (SingleIp ip) = (ip, ip)"
| "ipBounds (IpRange startIp endIp) = (startIp, endIp)"

definition payloadRule :: "AddFirewallRulePayload \<Rightarrow> string" where
  "payloadRule payload =
     ruleText (payload_name payload) (fst (ipBounds (payload_ip payload)))
       (snd (ipBounds (payload_ip payload)))"

definition firewallRequest ::
  "AddFirewallRulePayload \<Rightarrow> IAccount \<Rightarrow> (string \<times> string) list \<Rightarrow> jsval \<Rightarrow> FirewallRuleRequest" where
  "firewallRequest payload account tokenMappings server =
     \<lparr> fr_account = account,
       firewallRuleName = payload_name payload,
       startIpAddress = fst (ipBounds (payload_ip payload)),
       endIpAddress = snd (ipBounds (payload_ip payload)),
       serverName = server,
       securityTokenMappings = tokenMappings \<rparr>"

text \<open>
  The \<open>addFirewallRule\<close> reducer. Its first \<open>catch\<close> ends with \<open>return state\<close>; the model
  gives \<open>None\<close> for that and goes on only with an account.
\<close>

definition addFirewallRule :: "env \<Rightarrow> AddFirewallRulePayload \<Rightarrow> unit M" where
  "addFirewallRule env payload =
     seq (emit (ConsoleDebug (''Setting firewall rule: '' @ payloadRule payload)))
    (bnd (try_catch
            (bnd (await (constructAzureAccountForTenant env (payload_tenantId payload)))
                 (\<lambda>r. ret (Some r)))
            (\<lambda>err.
               seq (modify (\<lambda>st. st\<lparr>formError :=
                       errorCreatingFirewallRule (payloadRule payload) (getErrorMessage err)\<rparr>))
              (seq (modify (\<lambda>st. st\<lparr>dialog := None\<rparr>))
              (seq (emit (ErrorEvent ''AddFirewallRule'' ''constructAzureAccountForTenant''))
                   (ret None))))) (\<lambda>constructed.
     case constructed of
       None \<Rightarrow> ret ()
     | Some (account, tokenMappings) \<Rightarrow>
         bnd (gets (\<lambda>st. getProp (connectionProfile st) ''server'')) (\<lambda>server.
         seq (emit (RemoteCreateFirewallRule (firewallRequest payload account tokenMappings server)))
        (bnd (await (createFirewallRule env (firewallRequest payload account tokenMappings server)))
           (\<lambda>result.
         seq (if \<not> cf_result result then
                seq (modify (\<lambda>st. st\<lparr>formError :=
                       errorCreatingFirewallRule (payloadRule payload) (cf_errorMessage result)\<rparr>))
                    (emit (ErrorEvent ''AddFirewallRule'' ''firewallService.createFirewallRule''))
              else ret ())
        (seq (emit (ActionEvent ''AddFirewallRule''))
        (seq (modify (\<lambda>st. st\<lparr>dialog := None\<rparr>))
        (seq updateState
             (connectHelper env)))))))))"

subsection \<open>Edits under Azure MFA\<close>

definition setProfile :: "string \<Rightarrow> jsval \<Rightarrow> state \<Rightarrow> state" where
  "setProfile k v st = st\<lparr>connectionProfile := setProp (connectionProfile st) k v\<rparr>"

text \<open>
  The statements the \<open>accountId\<close> and \<open>authenticationType\<close> cases share: the tenants are
  fetched, written to the tenant component when there is one (\<open>tenantComponent\<close> is the
  object stored under \<open>tenantId\<close>), the first is selected, and the buttons are computed
  and assigned to \<open>accountComponent\<close>, which throws when that is \<open>undefined\<close>.
\<close>

definition refreshTenantsAndButtons ::
  "env \<Rightarrow> FormItemSpec option \<Rightarrow> FormItemSpec option \<Rightarrow> unit M" where
  "refreshTenantsAndButtons env accountComponent tenantComponent =
     bnd (gets accountId) (\<lambda>accId.
     bnd (getTenants env accId) (\<lambda>ts.
     seq (case tenantComponent of
            None \<Rightarrow> ret ()
          | Some _ \<Rightarrow>
              seq (modify (\<lambda>st. case component st ''tenantId'' of
                                   None \<Rightarrow> st
                                 | Some c \<Rightarrow> setComponent ''tenantId'' (c\<lparr>options := Some ts\<rparr>) st))
                  (case ts of
                     [] \<Rightarrow> ret ()
                   | t # _ \<Rightarrow> modify (setProfile ''tenantId'' (JStr (opt_value t)))))
    (bnd (bnd (gets (\<lambda>st. st)) (\<lambda>st. await (getAzureActionButtons env st))) (\<lambda>buttons.
     case accountComponent of
       None \<Rightarrow> throw (TypeError ''accountComponent is undefined'')
     | Some _ \<Rightarrow>
         modify (\<lambda>st. case component st ''accountId'' of
                         None \<Rightarrow> st
                       | Some c \<Rightarrow> setComponent ''accountId'' (c\<lparr>actionButtons := Some buttons\<rparr>) st)))))"

definition handleAzureMFAEdits :: "env \<Rightarrow> string \<Rightarrow> unit M" where
  "handleAzureMFAEdits env propName =
     (if propName \<in> set [''accountId'', ''tenantId'', ''authenticationType''] then
        bnd (gets (\<lambda>st. st)) (\<lambda>st.
          if authenticationType st \<noteq> AzureMFA then ret ()
          else
            (let accountComponent = getFormComponent st ''accountId'';
                 tenantComponent = getFormComponent st ''tenantId''
             in if propName = ''accountId'' then
                  refreshTenantsAndButtons env accountComponent tenantComponent
                else if propName = ''tenantId'' then ret ()
                else
                  (case accountComponent of
                     None \<Rightarrow> throw (TypeError ''accountComponent is undefined'')
                   | Some ac \<Rightarrow>
                       (case options ac of
                          None \<Rightarrow> throw (TypeError ''options is undefined'')
                        | Some os \<Rightarrow>
                            seq (case os of
                                   [] \<Rightarrow> ret ()
                                 | firstOption # _ \<Rightarrow>
                                     modify (setProfile ''accountId'' (JStr (opt_value firstOption))))
                                (refreshTenantsAndButtons env accountComponent tenantComponent)))))
      else ret ())"

section \<open>Specification-side definitions\<close>

text \<open>
  The visibility rules as the specification words them: the names hidden for an
  authentication type and a number of tenants.
\<close>

definition spec_hidden :: "jsval \<Rightarrow> nat \<Rightarrow> string set" where
  "spec_hidden auth tenantCount =
     (if auth \<noteq> SqlLogin then {''user'', ''password'', ''savePassword''} else {})
     \<union> (if auth \<noteq> AzureMFA then {''accountId'', ''tenantId''} else {})
     \<union> (if auth = AzureMFA \<and> tenantCount = 1 then {''tenantId''} else {})"

text \<open>The tenants of the current account, none when the lookup fails.\<close>

definition tenantsFound :: "env \<Rightarrow> state \<Rightarrow> FormItemOptions list" where
  "tenantsFound env st = (case tenantLookup env (accountId st) of Inl e \<Rightarrow> [] | Inr ts \<Rightarrow> ts)"

text \<open>
  What whole-form validation is to store on a component and whether it reports it, in the
  words of the specification: a hidden field is valid with an empty message, a visible
  field with a validator gets the validator's result, and a field without one keeps
  what it had.
\<close>

definition expectedValidation ::
  "state \<Rightarrow> profile \<Rightarrow> FormItemSpec \<Rightarrow> FormItemValidationState option" where
  "expectedValidation st p c =
     (if hidden c then Some valid
      else case validate c of
             None \<Rightarrow> validation c
           | Some v \<Rightarrow> Some (runValidator st v (getProp p (keyOf (propertyName c)))))"

definition stamp :: "state \<Rightarrow> profile \<Rightarrow> FormItemSpec \<Rightarrow> FormItemSpec" where
  "stamp st p c = c\<lparr>validation := expectedValidation st p c\<rparr>"

definition reportsInvalid :: "state \<Rightarrow> profile \<Rightarrow> FormItemSpec \<Rightarrow> bool" where
  "reportsInvalid st p c =
     (\<not> hidden c \<and>
      (case validate c of
         None \<Rightarrow> False
       | Some v \<Rightarrow> \<not> isValid (runValidator st v (getProp p (keyOf (propertyName c))))))"

definition storedInvalid :: "FormItemSpec \<Rightarrow> bool" where
  "storedInvalid c = (case validation c of None \<Rightarrow> False | Some r \<Rightarrow> \<not> isValid r)"

definition specsOf :: "state \<Rightarrow> string list \<Rightarrow> FormItemSpec list" where
  "specsOf st xs = concat (map (\<lambda>x. case component st x of None \<Rightarrow> [] | Some c \<Rightarrow> [c]) xs)"

text \<open>Everything of the controller but the components is the same.\<close>

definition sameButComponents :: "ctrl \<Rightarrow> ctrl \<Rightarrow> bool" where
  "sameButComponents s s' =
     (connectionProfile (this_state s') = connectionProfile (this_state s)
      \<and> selectedInputMode (this_state s') = selectedInputMode (this_state s)
      \<and> connectionStatus (this_state s') = connectionStatus (this_state s)
      \<and> formError (this_state s') = formError (this_state s)
      \<and> dialog (this_state s') = dialog (this_state s)
      \<and> mainOptions (connectionComponents (this_state s')) = mainOptions (connectionComponents (this_state s))
      \<and> topAdvancedOptions (connectionComponents (this_state s')) = topAdvancedOptions (connectionComponents (this_state s))
      \<and> groupedAdvancedOptions (connectionComponents (this_state s')) = groupedAdvancedOptions (connectionComponents (this_state s))
      \<and> published s' = published s
      \<and> events s' = events s)"

text \<open>The components with their stored validation results removed.\<close>

definition eraseValidation :: "(string \<times> FormItemSpec) list \<Rightarrow> (string \<times> FormItemSpec) list" where
  "eraseValidation cs = map (\<lambda>(k, c). (k, c\<lparr>validation := None\<rparr>)) cs"

definition componentsOf :: "ctrl \<Rightarrow> (string \<times> FormItemSpec) list" where
  "componentsOf s = components (connectionComponents (this_state s))"

text \<open>
  The side effects of an edit under Azure MFA, as the specification words them: the first
  account option is selected on an edit of the authentication type, the first tenant of
  the account is selected when there is one, and the token of the account is expired.
\<close>

definition selectAccount :: "string \<Rightarrow> state \<Rightarrow> state" where
  "selectAccount propName st =
     (if propName = ''authenticationType'' then
        (case getFormComponent st ''accountId'' of
           None \<Rightarrow> st
         | Some ac \<Rightarrow>
             (case options ac of
                Some (firstOption # _) \<Rightarrow> setProfile ''accountId'' (JStr (opt_value firstOption)) st
              | _ \<Rightarrow> st))
      else st)"

definition selectTenant :: "env \<Rightarrow> state \<Rightarrow> state" where
  "selectTenant env st =
     (case tenantsFound env st of
        [] \<Rightarrow> st
      | t # _ \<Rightarrow> setProfile ''tenantId'' (JStr (opt_value t)) st)"

definition tokenExpired :: "env \<Rightarrow> state \<Rightarrow> bool" where
  "tokenExpired env st =
     (authenticationType st = AzureMFA \<and> truthy (accountId st) \<and>
      (case findAccount env st of
         Inr (Some (Some account)) \<Rightarrow>
           (case getAccountSecurityToken env account of
              Inr session \<Rightarrow> isTokenInValid env (token session) (expiresOn session)
            | Inl e \<Rightarrow> False)
       | _ \<Rightarrow> False))"





text \<open>The names whole-form validation of the cleaned copy reports, at a connect.\<close>

definition reportedInputs :: "ctrl \<Rightarrow> string option list" where
  "reportedInputs s =
     map propertyName
       (filter (reportsInvalid (this_state s)
                  (cleanConnection (this_state s) (connectionProfile (this_state s))))
               (specsOf (this_state s) (getActiveFormComponents (this_state s))))"

section \<open>Example inputs\<close>

definition tenantContoso :: ITenant where
  "tenantContoso = \<lparr> tenant_displayName = ''Contoso'', tenant_id = ''t1'' \<rparr>"

definition accountAlice :: IAccount where
  "accountAlice = \<lparr> displayInfo = Some \<lparr> di_displayName = ''Alice'', userId = ''alice'' \<rparr>,
                    key_id = ''alice'',
                    tenants = Some (Some [Some tenantContoso]) \<rparr>"

definition subContoso :: AzureSubscription where
  "subContoso = \<lparr> sub_tenantId = ''t1'', sub_getToken = Inr ''tok'',
                  sub_getSession = Inr ''alice@contoso'' \<rparr>"

definition authAlice :: Auth where
  "authAlice = \<lparr> auth_getTenants = Inr [\<lparr> at_displayName = ''Contoso'', at_tenantId = ''t1'' \<rparr>],
                 auth_getSubscriptions = (\<lambda>_. Inr [subContoso]) \<rparr>"

definition exampleOption :: "string \<Rightarrow> string \<Rightarrow> string \<Rightarrow> ConnectionOption" where
  "exampleOption name kind grp =
     \<lparr> co_name = name, co_displayName = name, co_description = [], co_groupName = grp,
       co_valueType = kind, co_isRequired = False, co_categoryValues = Some [] \<rparr>"

definition exampleCapabilities :: CapabilitiesResult where
  "exampleCapabilities =
     \<lparr> cap_options = [exampleOption ''server'' ''string'' ''source'',
                      exampleOption ''user'' ''string'' ''security'',
                      exampleOption ''weird'' ''multiselect'' ''context''],
       groupDisplayNames = [''security'' \<mapsto> ''Security''] \<rparr>"

text \<open>
  An environment where the remote connect is refused by the firewall (error 40615), the
  client address cannot be read from the message, and Alice is signed in.
\<close>

definition exampleEnv :: env where
  "exampleEnv =
     \<lparr> getCapabilities = Inr exampleCapabilities,
       getAccounts_service = Inr [Some accountAlice],
       getAccountSecurityToken = (\<lambda>_. Inr \<lparr> token = ''tok'', expiresOn = 0 \<rparr>),
       isTokenInValid = (\<lambda>t e. e \<le> 0),
       validateAndSaveProfileFromDialog =
         (\<lambda>_. Inr \<lparr> errorMessage = ''Client is not allowed'', errorNumber = 40615 \<rparr>),
       handleFirewallRule = (\<lambda>_ _. Inr \<lparr> fw_result = False, ipAddress = [] \<rparr>),
       confirmVscodeAzureSignin = Inr (Some authAlice),
       createFirewallRule = (\<lambda>_. Inr \<lparr> cf_result = True, cf_errorMessage = [] \<rparr>),
       connectionCertValidationFailedErrorCode = - 2146893019,
       connectionFirewallErrorCode = 40615,
       saveAndOpenSession = (\<lambda>_. Inr ()),
       revealAndClose = Inr () \<rparr>"

definition exampleComponents :: "(string \<times> FormItemSpec) list" where
  "exampleComponents =
     [(''server'', (builtinSpec ''server'' ''Server'' True Input)\<lparr>validate := Some ServerRequired\<rparr>),
      (''authenticationType'', builtinSpec ''authenticationType'' ''Authentication'' True Dropdown),
      (''user'', (builtinSpec ''user'' ''User'' False Input)\<lparr>validate := Some UserRequired\<rparr>),
      (''password'', builtinSpec ''password'' ''Password'' False Password),
      (''port'', (builtinSpec ''port'' ''Port'' False Input)
         \<lparr>isAdvancedOption := True, optionCategory := Some ''initialization'',
           optionCategoryLabel := Some (LabelText ''Initialization'')\<rparr>),
      (''profileName'', builtinSpec ''profileName'' ''Loc.profileName'' False Input),
      (''savePassword'', builtinSpec ''savePassword'' ''Loc.savePassword'' False Checkbox),
      (''accountId'', (builtinSpec ''accountId'' ''Loc.azureAccount'' True Dropdown)
         \<lparr>options := Some [\<lparr> opt_displayName = ''Alice'', opt_value = ''alice'' \<rparr>],
           actionButtons := Some [signInButton],
           validate := Some AccountRequired\<rparr>),
      (''tenantId'', (builtinSpec ''tenantId'' ''Loc.tenantId'' True Dropdown)
         \<lparr>options := Some [], validate := Some TenantRequired, hidden := True\<rparr>),
      (''connectionString'', (builtinSpec ''connectionString'' ''Loc.connectionString'' True TextArea)
         \<lparr>validate := Some ConnectionStringRequired\<rparr>)]"

definition exampleState :: "ConnectionInputMode \<Rightarrow> profile \<Rightarrow> state" where
  "exampleState mode p =
     \<lparr> connectionProfile = p,
       selectedInputMode = mode,
       connectionComponents =
         \<lparr> components = exampleComponents,
           mainOptions = [''server'', ''authenticationType'', ''user'', ''password'',
                          ''savePassword'', ''accountId'', ''tenantId''],
           topAdvancedOptions = [''port''],
           groupedAdvancedOptions = [] \<rparr>,
       connectionStatus = NotStarted,
       formError = [],
       dialog = None \<rparr>"

definition ctrlOf :: "state \<Rightarrow> ctrl" where
  "ctrlOf st = \<lparr> this_state = st, published = [], events = [] \<rparr>"

definition mfaProfile :: profile where
  "mfaProfile = [(''authenticationType'', AzureMFA), (''server'', JStr ''srv''),
                 (''accountId'', JStr ''alice'')]"

definition sqlProfile :: profile where
  "sqlProfile = [(''authenticationType'', SqlLogin), (''server'', JStr []),
                 (''user'', JStr ''sa''), (''connectionString'', JStr ''Server=old'')]"

definition exampleConfig :: ExtConfig where
  "exampleConfig =
     \<lparr> config_getSqlToolsConfigValue = (\<lambda>k. JStr ''bundled''),
       extensionConfig = (\<lambda>k. if k = ''service.version'' then JStr ''1.0''
                              else if k = ''nullKey'' then JNull else JUndefined),
       workspaceConfig = (\<lambda>k. if k = ''emptyKey'' then JStr [] else JUndefined),
       sqlToolsServiceConfigKey = ''service'' \<rparr>"

definition validProfile :: profile where
  "validProfile = [(''authenticationType'', SqlLogin), (''server'', JStr ''srv''),
                   (''user'', JStr ''sa'')]"


definition noSigninEnv :: env where
  "noSigninEnv = exampleEnv\<lparr>confirmVscodeAzureSignin := Inl (Thrown ''sign-in failed'')\<rparr>"

definition examplePayload :: AddFirewallRulePayload where
  "examplePayload = \<lparr> payload_name = ''rule'', payload_ip = SingleIp ''10.0.0.1'',
                       payload_tenantId = ''t1'' \<rparr>"

definition firewallState :: state where
  "firewallState = (exampleState Parameters validProfile)
     \<lparr> connectionStatus := Error,
       dialog := Some (AddFirewallRuleDialog ''Client is not allowed'' ''0.0.0.0''
                        [\<lparr> dt_name = ''Contoso'', dt_id = ''t1'' \<rparr>]) \<rparr>"

text \<open>The state the reducer posts before it connects again.\<close>

definition afterFirewallRule ::
  "AddFirewallRulePayload \<Rightarrow> CreateFirewallRuleResponse \<Rightarrow> state \<Rightarrow> state" where
  "afterFirewallRule payload result st =
     st\<lparr> formError := (if cf_result result then formError st
                        else errorCreatingFirewallRule (payloadRule payload) (cf_errorMessage result)),
         dialog := None \<rparr>"




definition namedProfile :: profile where
  "namedProfile = [(''authenticationType'', SqlLogin), (''server'', JStr ''srv''),
                   (''connectionString'', JStr ''Server=old''), (''profileName'', JStr ''mine'')]"

definition blankProfile :: profile where
  "blankProfile = [(''authenticationType'', SqlLogin), (''server'', JStr []),
                   (''user'', JStr ''sa''), (''connectionString'', JStr [])]"

section \<open>Configuration lookup\<close>

text \<open>
  C10. \<open>getSqlToolsConfigValue\<close> returns the extension-configuration value stored under
  the derived key when that value is truthy, and the bundled configuration's value for
  the plain key when it is falsy; \<open>undefined\<close>, \<open>null\<close>, the empty string, \<open>false\<close> and
  \<open>0\<close> are all falsy. \<open>getExtensionConfig\<close> and \<open>getWorkspaceConfig\<close> return the
  caller's default exactly when the stored value is \<open>undefined\<close>; a stored \<open>null\<close> or
  empty string comes back unchanged.
\<close>

theorem C10_config_fallback:
  "getSqlToolsConfigValue c k =
     (if truthy (extensionConfig c (derivedKey c k)) then extensionConfig c (derivedKey c k)
      else config_getSqlToolsConfigValue c k)
   \<and> \<not> truthy JUndefined \<and> \<not> truthy JNull \<and> \<not> truthy (JStr [])
   \<and> \<not> truthy (JBool False) \<and> \<not> truthy (JNum 0)
   \<and> getExtensionConfig c k d = (if extensionConfig c k = JUndefined then d else extensionConfig c k)
   \<and> getWorkspaceConfig c k d = (if workspaceConfig c k = JUndefined then d else workspaceConfig c k)
   \<and> (extensionConfig c k \<in> {JNull, JStr []} \<longrightarrow> getExtensionConfig c k d = extensionConfig c k)
   \<and> (workspaceConfig c k \<in> {JNull, JStr []} \<longrightarrow> getWorkspaceConfig c k d = workspaceConfig c k)"
  by (auto simp: getSqlToolsConfigValue_def getExtensionConfig_def getWorkspaceConfig_def Let_def)

theorem C10_config_fallback_witness:
  "extensionConfig exampleConfig ''nullKey'' \<in> {JNull, JStr []}
   \<and> getExtensionConfig exampleConfig ''nullKey'' (JNum 1) = JNull
   \<and> workspaceConfig exampleConfig ''emptyKey'' \<in> {JNull, JStr []}
   \<and> getWorkspaceConfig exampleConfig ''emptyKey'' (JNum 1) = JStr []
   \<and> getExtensionConfig exampleConfig ''missing'' (JNum 1) = JNum 1
   \<and> getSqlToolsConfigValue exampleConfig ''version'' = JStr ''1.0''
   \<and> getSqlToolsConfigValue exampleConfig ''downloadUrl'' = JStr ''bundled''"
  using C10_config_fallback[of exampleConfig "''nullKey''" "JNum 1"]
        C10_config_fallback[of exampleConfig "''emptyKey''" "JNum 1"]
        C10_config_fallback[of exampleConfig "''missing''" "JNum 1"]
        C10_config_fallback[of exampleConfig "''version''" "JNum 1"]
        C10_config_fallback[of exampleConfig "''downloadUrl''" "JNum 1"]
  by (simp add: exampleConfig_def derivedKey_def)

section \<open>Visibility\<close>

lemma getTenants_total:
  "fst (getTenants env a s) = Inr (case tenantLookup env a of Inl e \<Rightarrow> [] | Inr ts \<Rightarrow> ts)
   \<and> this_state (snd (getTenants env a s)) = this_state s
   \<and> published (snd (getTenants env a s)) = published s"
  by (simp add: getTenants_def try_catch_def await_def seq_def bnd_def emit_def ret_def
           split: sum.splits)

lemma example_tenants:
  "tenantLookup exampleEnv (JStr ''alice'') = Inr [\<lparr> opt_displayName = ''Contoso'', opt_value = ''t1'' \<rparr>]"
  by (simp add: tenantLookup_def exampleEnv_def accountAlice_def userIdOf_def tenantContoso_def)

text \<open>
  C4. In input mode Parameters or AzureBrowse, \<open>updateItemVisibility\<close> does not throw and
  sets \<open>hidden\<close> of every component to whether its name is among: user, password and
  savePassword when the authentication type is not SQL login; accountId and tenantId
  when it is not Azure MFA; tenantId when it is Azure MFA and the current account has
  exactly one tenant. Nothing else of a component changes, so every other field ends
  with \<open>hidden = False\<close>. A tenant lookup that fails counts as no tenants.
\<close>

theorem C4_visibility:
  assumes "selectedInputMode (this_state s) = Parameters \<or> selectedInputMode (this_state s) = AzureBrowse"
  shows "fst (updateItemVisibility env s) = Inr ()
    \<and> components (connectionComponents (this_state (snd (updateItemVisibility env s)))) =
        map (\<lambda>(k, c). (k, c\<lparr>hidden := (\<exists>n. propertyName c = Some n \<and>
               n \<in> spec_hidden (authenticationType (this_state s))
                     (length (tenantsFound env (this_state s))))\<rparr>))
            (components (connectionComponents (this_state s)))
    \<and> (\<forall>e. tenantLookup env (accountId (this_state s)) = Inl e \<longrightarrow> tenantsFound env (this_state s) = [])"
  using assms getTenants_total[of env "accountId (this_state s)" s]
  apply (simp add: updateItemVisibility_def bnd_def gets_def modify_def ret_def Let_def setComponents_def
       tenantsFound_def spec_hidden_def includes_js_def SqlLogin_def AzureMFA_def
       split: prod.splits sum.splits option.splits)
  apply (auto split: option.splits)
  done

theorem C4_visibility_witness:
  "(selectedInputMode (this_state (ctrlOf (exampleState Parameters mfaProfile))) = Parameters
    \<or> selectedInputMode (this_state (ctrlOf (exampleState Parameters mfaProfile))) = AzureBrowse)
   \<and> map (\<lambda>(k, c). (k, hidden c))
        (components (connectionComponents (this_state
           (snd (updateItemVisibility exampleEnv (ctrlOf (exampleState Parameters mfaProfile)))))))
      = [(''server'', False), (''authenticationType'', False), (''user'', True),
         (''password'', True), (''port'', False), (''profileName'', False),
         (''savePassword'', True), (''accountId'', False), (''tenantId'', True),
         (''connectionString'', False)]"
  using C4_visibility[of "ctrlOf (exampleState Parameters mfaProfile)" exampleEnv]
  by (simp add: ctrlOf_def exampleState_def mfaProfile_def exampleComponents_def builtinSpec_def
        emptySpec_def spec_hidden_def tenantsFound_def accountId_def authenticationType_def
        getProp_def example_tenants AzureMFA_def SqlLogin_def)

section \<open>Cleaning a profile\<close>

lemma map_of_clearHidden:
  "map_of (fold clearHidden cs p) k =
     (if \<exists>c \<in> set cs. hidden c \<and> keyOf (propertyName c) = k then Some JUndefined else map_of p k)"
  by (induction cs arbitrary: p) (auto simp: clearHidden_def setProp_def update_conv')

lemma clearHidden_fixed:
  "\<forall>c \<in> set cs. hidden c \<longrightarrow> map_of p (keyOf (propertyName c)) = Some JUndefined
   \<Longrightarrow> fold clearHidden cs p = p"
  by (induction cs arbitrary: p) (auto simp: clearHidden_def setProp_def update_triv)

lemma map_of_clearUnless:
  "map_of (map clearUnlessConnectionString p) k =
     map_option (\<lambda>v. if k \<noteq> ''connectionString'' \<and> k \<noteq> ''profileName'' then JUndefined else v)
       (map_of p k)"
  by (induction p) (auto simp: clearUnlessConnectionString_def)

lemma clearUnless_idem: "clearUnlessConnectionString (clearUnlessConnectionString x) = clearUnlessConnectionString x"
  by (cases x) (simp add: clearUnlessConnectionString_def)

lemma cleanConnection_alt:
  "cleanConnection st p =
     (let c1 = fold clearHidden (map snd (components (connectionComponents st))) p
      in if selectedInputMode st = ConnectionString then map clearUnlessConnectionString c1
         else setProp c1 ''connectionString'' JUndefined)"
  by (cases "selectedInputMode st") (simp_all add: cleanConnection_def Let_def)

lemma clean_idem: "cleanConnection st (cleanConnection st p) = cleanConnection st p"
proof (cases "selectedInputMode st = ConnectionString")
  case True
  let ?cs = "map snd (components (connectionComponents st))"
  let ?c1 = "fold clearHidden ?cs p"
  have "fold clearHidden ?cs (map clearUnlessConnectionString ?c1) = map clearUnlessConnectionString ?c1"
    by (rule clearHidden_fixed) (auto simp: map_of_clearUnless map_of_clearHidden)
  then show ?thesis using True
    by (simp add: cleanConnection_alt clearUnless_idem)
next
  case False
  let ?cs = "map snd (components (connectionComponents st))"
  let ?c1 = "fold clearHidden ?cs p"
  let ?c2 = "setProp ?c1 ''connectionString'' JUndefined"
  have "fold clearHidden ?cs ?c2 = ?c2"
    by (rule clearHidden_fixed) (auto simp: setProp_def update_conv' map_of_clearHidden)
  moreover have "setProp ?c2 ''connectionString'' JUndefined = ?c2"
    by (simp add: setProp_def update_triv update_conv')
  ultimately show ?thesis using False
    by (simp add: cleanConnection_alt)
qed

text \<open>
  C2. \<open>cleanConnection\<close> in input mode ConnectionString leaves \<open>undefined\<close> in every
  property but \<open>connectionString\<close> and \<open>profileName\<close>, and these two read as before
  unless their component is hidden; in mode Parameters or AzureBrowse it leaves
  \<open>undefined\<close> in \<open>connectionString\<close> and in the property of every hidden component, and
  every other property reads as before; in every mode cleaning a cleaned profile changes
  nothing.
\<close>

theorem C2_clean:
  "(selectedInputMode st = ConnectionString \<longrightarrow>
      (\<forall>k. k \<noteq> ''connectionString'' \<and> k \<noteq> ''profileName'' \<longrightarrow>
           getProp (cleanConnection st p) k = JUndefined)
    \<and> (\<forall>k. (k = ''connectionString'' \<or> k = ''profileName'')
            \<and> (\<forall>c \<in> set (map snd (components (connectionComponents st))).
                  hidden c \<longrightarrow> keyOf (propertyName c) \<noteq> k)
            \<longrightarrow> getProp (cleanConnection st p) k = getProp p k)
    \<and> (\<forall>c \<in> set (map snd (components (connectionComponents st))).
           hidden c \<longrightarrow> getProp (cleanConnection st p) (keyOf (propertyName c)) = JUndefined))
   \<and> (selectedInputMode st = Parameters \<or> selectedInputMode st = AzureBrowse \<longrightarrow>
        getProp (cleanConnection st p) ''connectionString'' = JUndefined
      \<and> (\<forall>c \<in> set (map snd (components (connectionComponents st))).
           hidden c \<longrightarrow> getProp (cleanConnection st p) (keyOf (propertyName c)) = JUndefined)
      \<and> (\<forall>k. k \<noteq> ''connectionString''
              \<and> (\<forall>c \<in> set (map snd (components (connectionComponents st))).
                    hidden c \<longrightarrow> keyOf (propertyName c) \<noteq> k)
              \<longrightarrow> getProp (cleanConnection st p) k = getProp p k))
   \<and> cleanConnection st (cleanConnection st p) = cleanConnection st p"
proof (intro conjI impI allI ballI)
  fix k assume "selectedInputMode st = ConnectionString"
    and "k \<noteq> ''connectionString'' \<and> k \<noteq> ''profileName''"
  then show "getProp (cleanConnection st p) k = JUndefined"
    by (simp add: cleanConnection_alt getProp_def map_of_clearUnless split: option.splits)
next
  fix k assume "selectedInputMode st = ConnectionString"
    and "(k = ''connectionString'' \<or> k = ''profileName'')
            \<and> (\<forall>c \<in> set (map snd (components (connectionComponents st))).
                  hidden c \<longrightarrow> keyOf (propertyName c) \<noteq> k)"
  then show "getProp (cleanConnection st p) k = getProp p k"
    by (auto simp: cleanConnection_alt getProp_def map_of_clearUnless map_of_clearHidden
             split: option.splits)
next
  fix c assume "selectedInputMode st = ConnectionString"
    and "c \<in> set (map snd (components (connectionComponents st)))" and "hidden c"
  then show "getProp (cleanConnection st p) (keyOf (propertyName c)) = JUndefined"
    by (fastforce simp: cleanConnection_alt getProp_def map_of_clearUnless map_of_clearHidden
             split: option.splits)
next
  assume "selectedInputMode st = Parameters \<or> selectedInputMode st = AzureBrowse"
  then show "getProp (cleanConnection st p) ''connectionString'' = JUndefined"
    by (auto simp: cleanConnection_alt getProp_def setProp_def update_conv')
next
  fix c assume "selectedInputMode st = Parameters \<or> selectedInputMode st = AzureBrowse"
    and "c \<in> set (map snd (components (connectionComponents st)))" and "hidden c"
  then show "getProp (cleanConnection st p) (keyOf (propertyName c)) = JUndefined"
    by (fastforce simp: cleanConnection_alt getProp_def setProp_def update_conv' map_of_clearHidden)
next
  fix k assume "selectedInputMode st = Parameters \<or> selectedInputMode st = AzureBrowse"
    and "k \<noteq> ''connectionString''
              \<and> (\<forall>c \<in> set (map snd (components (connectionComponents st))).
                    hidden c \<longrightarrow> keyOf (propertyName c) \<noteq> k)"
  then show "getProp (cleanConnection st p) k = getProp p k"
    by (auto simp: cleanConnection_alt getProp_def setProp_def update_conv' map_of_clearHidden)
next
  show "cleanConnection st (cleanConnection st p) = cleanConnection st p"
    by (rule clean_idem)
qed

theorem C2_clean_witness:
  "selectedInputMode (exampleState ConnectionString namedProfile) = ConnectionString
   \<and> map propertyName
        (filter hidden
           (map snd (components (connectionComponents (exampleState ConnectionString namedProfile)))))
       = [Some ''tenantId'']
   \<and> cleanConnection (exampleState ConnectionString namedProfile) namedProfile =
       [(''authenticationType'', JUndefined), (''server'', JUndefined),
        (''connectionString'', JStr ''Server=old''), (''profileName'', JStr ''mine''),
        (''tenantId'', JUndefined)]
   \<and> getProp (cleanConnection (exampleState ConnectionString namedProfile) namedProfile) ''server''
       = JUndefined
   \<and> getProp (cleanConnection (exampleState ConnectionString namedProfile) namedProfile)
        ''connectionString'' = JStr ''Server=old''
   \<and> getProp (cleanConnection (exampleState ConnectionString namedProfile) namedProfile)
        ''profileName'' = JStr ''mine''
   \<and> (selectedInputMode (exampleState Parameters sqlProfile) = Parameters
        \<or> selectedInputMode (exampleState Parameters sqlProfile) = AzureBrowse)
   \<and> cleanConnection (exampleState Parameters sqlProfile) sqlProfile =
       [(''authenticationType'', SqlLogin), (''server'', JStr []), (''user'', JStr ''sa''),
        (''connectionString'', JUndefined), (''tenantId'', JUndefined)]
   \<and> getProp (cleanConnection (exampleState Parameters sqlProfile) sqlProfile) ''user'' = JStr ''sa''
   \<and> cleanConnection (exampleState Parameters sqlProfile)
         (cleanConnection (exampleState Parameters sqlProfile) sqlProfile)
       = cleanConnection (exampleState Parameters sqlProfile) sqlProfile"
proof -
  define st where "st = exampleState ConnectionString namedProfile"
  have mode: "selectedInputMode st = ConnectionString"
    by (simp add: st_def exampleState_def)
  have vis: "\<forall>c \<in> set (map snd (components (connectionComponents st))).
               hidden c \<longrightarrow> keyOf (propertyName c) \<noteq> ''connectionString''
                               \<and> keyOf (propertyName c) \<noteq> ''profileName''"
    by (simp add: st_def exampleState_def exampleComponents_def builtinSpec_def emptySpec_def)
  have old: "getProp namedProfile ''connectionString'' = JStr ''Server=old''"
       "getProp namedProfile ''profileName'' = JStr ''mine''"
    by (simp_all add: namedProfile_def getProp_def)
  from C2_clean[of st namedProfile] mode vis
  have kept: "getProp (cleanConnection st namedProfile) ''connectionString'' = JStr ''Server=old''"
       "getProp (cleanConnection st namedProfile) ''profileName'' = JStr ''mine''"
       "getProp (cleanConnection st namedProfile) ''server'' = JUndefined"
    by (auto simp: old)
  have whole: "cleanConnection st namedProfile =
       [(''authenticationType'', JUndefined), (''server'', JUndefined),
        (''connectionString'', JStr ''Server=old''), (''profileName'', JStr ''mine''),
        (''tenantId'', JUndefined)]"
    by (simp add: st_def cleanConnection_def exampleState_def namedProfile_def
          exampleComponents_def builtinSpec_def emptySpec_def clearHidden_def setProp_def
          clearUnlessConnectionString_def)
  have p1: "selectedInputMode (exampleState Parameters sqlProfile) = Parameters
        \<or> selectedInputMode (exampleState Parameters sqlProfile) = AzureBrowse"
    by (simp add: exampleState_def)
  have p2: "cleanConnection (exampleState Parameters sqlProfile) sqlProfile =
       [(''authenticationType'', SqlLogin), (''server'', JStr []), (''user'', JStr ''sa''),
        (''connectionString'', JUndefined), (''tenantId'', JUndefined)]"
    by (simp add: cleanConnection_def exampleState_def sqlProfile_def exampleComponents_def
          builtinSpec_def emptySpec_def clearHidden_def setProp_def)
  have p3: "getProp (cleanConnection (exampleState Parameters sqlProfile) sqlProfile) ''user''
            = JStr ''sa''"
    unfolding p2 by (simp add: getProp_def)
  have p4: "cleanConnection (exampleState Parameters sqlProfile)
         (cleanConnection (exampleState Parameters sqlProfile) sqlProfile)
       = cleanConnection (exampleState Parameters sqlProfile) sqlProfile"
    using C2_clean[of "exampleState Parameters sqlProfile" sqlProfile] by blast
  have la: "map propertyName (filter hidden (map snd (components (connectionComponents st))))
            = [Some ''tenantId'']"
    by (simp add: st_def exampleState_def exampleComponents_def builtinSpec_def emptySpec_def)
  show ?thesis
    unfolding st_def[symmetric]
    using mode la whole kept p1 p2 p3 p4 by blast
qed

section \<open>Validation\<close>

lemma runValidator_cong:
  "connectionProfile st' = connectionProfile st \<Longrightarrow> selectedInputMode st' = selectedInputMode st
   \<Longrightarrow> runValidator st' v x = runValidator st v x"
  by (cases v) (simp_all add: authenticationType_def)

lemma component_setComponent:
  "component (setComponent x c st) k = (if k = x then Some c else component st k)"
  by (simp add: component_def setComponent_def setComponents_def update_conv')

lemma frame_setComponent:
  "sameButComponents s (s\<lparr>this_state := setComponent x c (this_state s)\<rparr>)"
  by (simp add: sameButComponents_def setComponent_def setComponents_def)

lemma stamp_cong:
  "connectionProfile st' = connectionProfile st \<Longrightarrow> selectedInputMode st' = selectedInputMode st
   \<Longrightarrow> stamp st' p c = stamp st p c"
  by (simp add: stamp_def expectedValidation_def runValidator_cong[of st' st] split: option.splits)

lemma reportsInvalid_cong:
  "connectionProfile st' = connectionProfile st \<Longrightarrow> selectedInputMode st' = selectedInputMode st
   \<Longrightarrow> reportsInvalid st' p c = reportsInvalid st p c"
  by (simp add: reportsInvalid_def runValidator_cong[of st' st] split: option.splits)

lemma stamp_idem: "stamp st p (stamp st p c) = stamp st p c"
  by (simp add: stamp_def expectedValidation_def split: option.splits)

lemma reportsInvalid_stamp: "reportsInvalid st p (stamp st q c) = reportsInvalid st p c"
  by (simp add: reportsInvalid_def stamp_def split: option.splits)

lemma propertyName_stamp: "propertyName (stamp st p c) = propertyName c"
  by (simp add: stamp_def)

lemma validateAll_step:
  assumes "component (this_state s) x = Some c"
  shows "validateAll p (x # xs) errs s =
           validateAll p xs
             (if reportsInvalid (this_state s) p c then errs @ [propertyName c] else errs)
             (s\<lparr>this_state := setComponent x (stamp (this_state s) p c) (this_state s)\<rparr>)"
proof -
  have same: "validate c = None \<Longrightarrow> \<not> hidden c \<Longrightarrow>
        s\<lparr>this_state := setComponent x (stamp (this_state s) p c) (this_state s)\<rparr> = s"
    using assms
    by (simp add: stamp_def expectedValidation_def setComponent_def setComponents_def
          component_def update_triv)
  show ?thesis
  proof (cases "hidden c")
    case True
    then show ?thesis using assms
      by (simp add: stamp_def expectedValidation_def reportsInvalid_def)
  next
    case False
    show ?thesis
    proof (cases "validate c")
      case None
      then show ?thesis using assms False same
        by (simp add: reportsInvalid_def)
    next
      case (Some v)
      then show ?thesis using assms False
        by (simp add: stamp_def expectedValidation_def reportsInvalid_def Let_def)
    qed
  qed
qed

lemma validateAll_result:
  "\<forall>x\<in>set xs. component (this_state s) x \<noteq> None \<Longrightarrow>
   \<exists>s'. validateAll p xs errs s =
          (Inr (errs @ map propertyName (filter (reportsInvalid (this_state s) p)
                                           (specsOf (this_state s) xs))), s')
      \<and> sameButComponents s s'
      \<and> (\<forall>k. component (this_state s') k =
               (if k \<in> set xs then map_option (stamp (this_state s) p) (component (this_state s) k)
                else component (this_state s) k))"
proof (induction xs arbitrary: s errs)
  case Nil
  then show ?case by (simp add: ret_def specsOf_def sameButComponents_def)
next
  case (Cons x xs)
  from Cons.prems obtain c where c: "component (this_state s) x = Some c" by auto
  let ?s1 = "s\<lparr>this_state := setComponent x (stamp (this_state s) p c) (this_state s)\<rparr>"
  let ?errs1 = "if reportsInvalid (this_state s) p c then errs @ [propertyName c] else errs"
  have fr: "sameButComponents s ?s1" by (rule frame_setComponent)
  then have eqs: "connectionProfile (this_state ?s1) = connectionProfile (this_state s)"
                 "selectedInputMode (this_state ?s1) = selectedInputMode (this_state s)"
    by (simp_all add: sameButComponents_def)
  have comp1: "\<And>k. component (this_state ?s1) k =
                  (if k = x then Some (stamp (this_state s) p c) else component (this_state s) k)"
    by (simp add: component_setComponent)
  have pre: "\<forall>y\<in>set xs. component (this_state ?s1) y \<noteq> None"
    using Cons.prems by (auto simp: component_setComponent)
  from Cons.IH[OF pre, of ?errs1] obtain s' where
    run: "validateAll p xs ?errs1 ?s1 =
            (Inr (?errs1 @ map propertyName (filter (reportsInvalid (this_state ?s1) p)
                                               (specsOf (this_state ?s1) xs))), s')"
    and fr': "sameButComponents ?s1 s'"
    and comp': "\<forall>k. component (this_state s') k =
               (if k \<in> set xs then map_option (stamp (this_state ?s1) p) (component (this_state ?s1) k)
                else component (this_state ?s1) k)"
    by blast
  have st_eq: "stamp (this_state ?s1) p = stamp (this_state s) p"
    by (rule ext) (rule stamp_cong[OF eqs])
  have ri_eq: "reportsInvalid (this_state ?s1) p = reportsInvalid (this_state s) p"
    by (rule ext) (rule reportsInvalid_cong[OF eqs])
  have specs: "map propertyName (filter (reportsInvalid (this_state s) p) (specsOf (this_state ?s1) xs))
             = map propertyName (filter (reportsInvalid (this_state s) p) (specsOf (this_state s) xs))"
  proof -
    have "\<And>ys. map propertyName (filter (reportsInvalid (this_state s) p) (specsOf (this_state ?s1) ys))
             = map propertyName (filter (reportsInvalid (this_state s) p) (specsOf (this_state s) ys))"
    proof -
      fix ys show "map propertyName (filter (reportsInvalid (this_state s) p) (specsOf (this_state ?s1) ys))
             = map propertyName (filter (reportsInvalid (this_state s) p) (specsOf (this_state s) ys))"
        using c
        by (induction ys)
           (auto simp: specsOf_def component_setComponent reportsInvalid_stamp propertyName_stamp split: option.splits if_splits)
    qed
    then show ?thesis .
  qed
  have run2: "validateAll p xs ?errs1 ?s1 =
            (Inr (?errs1 @ map propertyName (filter (reportsInvalid (this_state s) p)
                                               (specsOf (this_state s) xs))), s')"
    using run unfolding ri_eq specs .
  have lists: "errs @ map propertyName (filter (reportsInvalid (this_state s) p)
                                      (specsOf (this_state s) (x # xs)))
             = ?errs1 @ map propertyName (filter (reportsInvalid (this_state s) p)
                                               (specsOf (this_state s) xs))"
    using c by (simp add: specsOf_def)
  have res: "validateAll p (x # xs) errs s =
      (Inr (errs @ map propertyName (filter (reportsInvalid (this_state s) p)
                                      (specsOf (this_state s) (x # xs)))), s')"
    unfolding validateAll_step[OF c] run2 lists ..
  have frame: "sameButComponents s s'"
    using fr fr' by (simp add: sameButComponents_def)
  have comps: "\<forall>k. component (this_state s') k =
               (if k \<in> set (x # xs) then map_option (stamp (this_state s) p) (component (this_state s) k)
                else component (this_state s) k)"
  proof -
    have "\<forall>k. component (this_state s') k =
               (if k \<in> set xs
                then map_option (stamp (this_state s) p)
                       (if k = x then Some (stamp (this_state s) p c) else component (this_state s) k)
                else (if k = x then Some (stamp (this_state s) p c) else component (this_state s) k))"
      using comp' unfolding st_eq comp1 .
    then show ?thesis using c by (auto simp: stamp_idem)
  qed
  from res frame comps show ?case by blast
qed

lemma specsOf_after:
  "\<forall>x\<in>set xs. component st' x = map_option f (component st x)
   \<Longrightarrow> specsOf st' xs = map f (specsOf st xs)"
  by (induction xs) (auto simp: specsOf_def split: option.splits)

lemma storedInvalid_stamp:
  "storedInvalid (stamp st p c) =
     (reportsInvalid st p c \<or> (\<not> hidden c \<and> validate c = None \<and> storedInvalid c))"
  by (auto simp: storedInvalid_def stamp_def expectedValidation_def reportsInvalid_def valid_def
           split: option.splits)

lemma reported_is_stored:
  "\<forall>c\<in>set cs. \<not> hidden c \<and> validate c = None \<longrightarrow> \<not> storedInvalid c \<Longrightarrow>
   map propertyName (filter storedInvalid (map (stamp st p) cs))
   = map propertyName (filter (reportsInvalid st p) cs)"
  by (induction cs) (auto simp: storedInvalid_stamp propertyName_stamp)

lemma whole_form_result:
  assumes "\<forall>x\<in>set (getActiveFormComponents (this_state s)). component (this_state s) x \<noteq> None"
  shows "\<exists>s'. validateConnectionProfile p None s =
            (Inr (map propertyName
                   (filter (reportsInvalid (this_state s) p)
                      (specsOf (this_state s) (getActiveFormComponents (this_state s))))), s')
     \<and> sameButComponents s s'
     \<and> (\<forall>k. component (this_state s') k =
            (if k \<in> set (getActiveFormComponents (this_state s))
             then map_option (stamp (this_state s) p) (component (this_state s) k)
             else component (this_state s) k))
     \<and> ((\<forall>c\<in>set (specsOf (this_state s) (getActiveFormComponents (this_state s))).
             \<not> hidden c \<and> validate c = None \<longrightarrow> \<not> storedInvalid c)
          \<longrightarrow> map propertyName
                (filter (reportsInvalid (this_state s) p)
                   (specsOf (this_state s) (getActiveFormComponents (this_state s))))
              = map propertyName
                  (filter storedInvalid
                     (specsOf (this_state s') (getActiveFormComponents (this_state s)))))"
proof -
  let ?xs = "getActiveFormComponents (this_state s)"
  from validateAll_result[OF assms, of p "[]"] obtain s' where
    run: "validateAll p ?xs [] s =
            (Inr ([] @ map propertyName (filter (reportsInvalid (this_state s) p)
                                           (specsOf (this_state s) ?xs))), s')"
    and fr: "sameButComponents s s'"
    and comps: "\<forall>k. component (this_state s') k =
               (if k \<in> set ?xs then map_option (stamp (this_state s) p) (component (this_state s) k)
                else component (this_state s) k)"
    by blast
  have call: "validateConnectionProfile p None s = validateAll p ?xs [] s"
    by (simp add: validateConnectionProfile_def bnd_def gets_def)
  have after: "specsOf (this_state s') ?xs = map (stamp (this_state s) p) (specsOf (this_state s) ?xs)"
    by (rule specsOf_after) (simp add: comps)
  have stored: "(\<forall>c\<in>set (specsOf (this_state s) ?xs).
             \<not> hidden c \<and> validate c = None \<longrightarrow> \<not> storedInvalid c)
          \<longrightarrow> map propertyName (filter (reportsInvalid (this_state s) p) (specsOf (this_state s) ?xs))
              = map propertyName (filter storedInvalid (specsOf (this_state s') ?xs))"
    unfolding after using reported_is_stored[of "specsOf (this_state s) ?xs" "this_state s" p]
    by simp
  from run call fr comps stored show ?thesis by auto
qed

text \<open>
  C5. The active fields are the main options in the input modes \<open>Parameters\<close> and
  \<open>AzureBrowse\<close>, and \<open>connectionString\<close> and \<open>profileName\<close> in the mode
  \<open>ConnectionString\<close>. When every active field has a component, whole-form validation
  (\<open>validateConnectionProfile\<close> without a property name) does not throw and visits the
  active fields of the current input mode and no other: a hidden field gets the valid
  result with the empty message and its validator is not run, a visible field with a
  validator gets the validator's result, a visible field without one keeps what it had
  and is not reported. The list returned holds the property names of the visible active
  fields whose validator reported invalid; these are the active fields whose stored
  result is invalid (no field without a validator carries an invalid result from
  before, as after \<open>clearFormError\<close>).
\<close>

theorem C5_whole_form_validation:
  assumes "\<forall>x\<in>set (getActiveFormComponents (this_state s)). component (this_state s) x \<noteq> None"
  shows "getActiveFormComponents (this_state s) =
           (case selectedInputMode (this_state s) of
              Parameters \<Rightarrow> mainOptions (connectionComponents (this_state s))
            | AzureBrowse \<Rightarrow> mainOptions (connectionComponents (this_state s))
            | ConnectionString \<Rightarrow> [''connectionString'', ''profileName''])
     \<and> (\<exists>s'. validateConnectionProfile p None s =
            (Inr (map propertyName
                   (filter (reportsInvalid (this_state s) p)
                      (specsOf (this_state s) (getActiveFormComponents (this_state s))))), s')
     \<and> sameButComponents s s'
     \<and> (\<forall>k. component (this_state s') k =
            (if k \<in> set (getActiveFormComponents (this_state s))
             then map_option (stamp (this_state s) p) (component (this_state s) k)
             else component (this_state s) k))
     \<and> ((\<forall>c\<in>set (specsOf (this_state s) (getActiveFormComponents (this_state s))).
             \<not> hidden c \<and> validate c = None \<longrightarrow> \<not> storedInvalid c)
          \<longrightarrow> map propertyName
                (filter (reportsInvalid (this_state s) p)
                   (specsOf (this_state s) (getActiveFormComponents (this_state s))))
              = map propertyName
                  (filter storedInvalid
                     (specsOf (this_state s') (getActiveFormComponents (this_state s))))))"
proof (rule conjI)
  show "getActiveFormComponents (this_state s) =
           (case selectedInputMode (this_state s) of
              Parameters \<Rightarrow> mainOptions (connectionComponents (this_state s))
            | AzureBrowse \<Rightarrow> mainOptions (connectionComponents (this_state s))
            | ConnectionString \<Rightarrow> [''connectionString'', ''profileName''])"
    by (cases "selectedInputMode (this_state s)") (simp_all add: getActiveFormComponents_def)
qed (use assms in \<open>rule whole_form_result\<close>)

lemma example_simps:
  "this_state (ctrlOf st) = st"
  "published (ctrlOf st) = []"
  "events (ctrlOf st) = []"
  "authenticationType (exampleState m p) = getProp p ''authenticationType''"
  "accountId (exampleState m p) = getProp p ''accountId''"
  "selectedInputMode (exampleState m p) = m"
  "connectionProfile (exampleState m p) = p"
  "component (exampleState m p) x = map_of exampleComponents x"
  "components (connectionComponents (exampleState m p)) = exampleComponents"
  "getActiveFormComponents (exampleState m p) =
     (if m = Parameters \<or> m = AzureBrowse
      then [''server'', ''authenticationType'', ''user'', ''password'', ''savePassword'',
            ''accountId'', ''tenantId'']
      else [''connectionString'', ''profileName''])"
  by (simp_all add: ctrlOf_def exampleState_def authenticationType_def accountId_def
        component_def getActiveFormComponents_def)

theorem C5_whole_form_validation_witness:
  "list_all (\<lambda>x. component (this_state (ctrlOf (exampleState Parameters sqlProfile))) x \<noteq> None)
      (getActiveFormComponents (this_state (ctrlOf (exampleState Parameters sqlProfile))))
   \<and> fst (validateConnectionProfile sqlProfile None (ctrlOf (exampleState Parameters sqlProfile)))
       = Inr [Some ''server'']
   \<and> getActiveFormComponents (this_state (ctrlOf (exampleState Parameters blankProfile)))
       = [''server'', ''authenticationType'', ''user'', ''password'', ''savePassword'',
          ''accountId'', ''tenantId'']
   \<and> fst (validateConnectionProfile blankProfile None
             (ctrlOf (exampleState Parameters blankProfile)))
       = Inr [Some ''server'']
   \<and> list_all
        (\<lambda>x. component (this_state (ctrlOf (exampleState ConnectionString blankProfile))) x \<noteq> None)
        (getActiveFormComponents (this_state (ctrlOf (exampleState ConnectionString blankProfile))))
   \<and> getActiveFormComponents (this_state (ctrlOf (exampleState ConnectionString blankProfile)))
       = [''connectionString'', ''profileName'']
   \<and> fst (validateConnectionProfile blankProfile None
             (ctrlOf (exampleState ConnectionString blankProfile)))
       = Inr [Some ''connectionString'']"
proof -
  let ?s = "ctrlOf (exampleState Parameters sqlProfile)"
  have hyp: "\<forall>x\<in>set (getActiveFormComponents (this_state ?s)). component (this_state ?s) x \<noteq> None"
    by (simp add: example_simps exampleComponents_def)
  have specs: "map propertyName
                   (filter (reportsInvalid (this_state ?s) sqlProfile)
                      (specsOf (this_state ?s) (getActiveFormComponents (this_state ?s))))
               = [Some ''server'']"
    by (simp add: example_simps specsOf_def exampleComponents_def reportsInvalid_def
          builtinSpec_def emptySpec_def sqlProfile_def getProp_def invalid_def valid_def
          SqlLogin_def AzureMFA_def)
  from C5_whole_form_validation[OF hyp, of sqlProfile] specs
  have r1: "fst (validateConnectionProfile sqlProfile None ?s) = Inr [Some ''server'']"
    by auto
  have h1: "list_all (\<lambda>x. component (this_state ?s) x \<noteq> None)
      (getActiveFormComponents (this_state ?s))"
    using hyp by (simp add: list_all_iff)
  let ?p = "ctrlOf (exampleState Parameters blankProfile)"
  have hypp: "\<forall>x\<in>set (getActiveFormComponents (this_state ?p)). component (this_state ?p) x \<noteq> None"
    by (simp add: example_simps exampleComponents_def)
  have specsp: "map propertyName
                   (filter (reportsInvalid (this_state ?p) blankProfile)
                      (specsOf (this_state ?p) (getActiveFormComponents (this_state ?p))))
               = [Some ''server'']"
    by (simp add: example_simps specsOf_def exampleComponents_def reportsInvalid_def
          builtinSpec_def emptySpec_def blankProfile_def getProp_def invalid_def valid_def
          SqlLogin_def AzureMFA_def)
  from C5_whole_form_validation[OF hypp, of blankProfile] specsp
  have r2: "fst (validateConnectionProfile blankProfile None ?p) = Inr [Some ''server'']"
    by auto
  from C5_whole_form_validation[OF hypp, of blankProfile]
  have a2: "getActiveFormComponents (this_state ?p)
       = [''server'', ''authenticationType'', ''user'', ''password'', ''savePassword'',
          ''accountId'', ''tenantId'']"
    by (simp add: example_simps exampleState_def)
  let ?c = "ctrlOf (exampleState ConnectionString blankProfile)"
  have hypc: "\<forall>x\<in>set (getActiveFormComponents (this_state ?c)). component (this_state ?c) x \<noteq> None"
    by (simp add: example_simps exampleComponents_def)
  have specsc: "map propertyName
                   (filter (reportsInvalid (this_state ?c) blankProfile)
                      (specsOf (this_state ?c) (getActiveFormComponents (this_state ?c))))
               = [Some ''connectionString'']"
    by (simp add: example_simps specsOf_def exampleComponents_def reportsInvalid_def
          builtinSpec_def emptySpec_def blankProfile_def getProp_def invalid_def valid_def
          SqlLogin_def AzureMFA_def)
  from C5_whole_form_validation[OF hypc, of blankProfile] specsc
  have r3: "fst (validateConnectionProfile blankProfile None ?c) = Inr [Some ''connectionString'']"
    by auto
  from C5_whole_form_validation[OF hypc, of blankProfile]
  have a3: "getActiveFormComponents (this_state ?c) = [''connectionString'', ''profileName'']"
    by (simp add: example_simps)
  have h3: "list_all (\<lambda>x. component (this_state ?c) x \<noteq> None)
      (getActiveFormComponents (this_state ?c))"
    using hypc by (simp add: list_all_iff)
  show ?thesis using r1 h1 a2 r2 h3 a3 r3 by blast
qed

section \<open>Connecting with invalid input\<close>

lemma erase_update:
  "map_of cs x = Some c \<Longrightarrow>
   eraseValidation (AList.update x (c\<lparr>validation := v\<rparr>) cs) = eraseValidation cs"
  by (induction cs) (auto simp: eraseValidation_def)

lemma erase_setComponent:
  "component st x = Some c \<Longrightarrow>
   eraseValidation (components (connectionComponents (setComponent x (c\<lparr>validation := v\<rparr>) st)))
   = eraseValidation (components (connectionComponents st))"
  by (simp add: component_def setComponent_def setComponents_def erase_update)

lemma validateAll_erase:
  "eraseValidation (componentsOf (snd (validateAll p xs errs s))) = eraseValidation (componentsOf s)"
proof (induction xs arbitrary: s errs)
  case Nil
  then show ?case by (simp add: ret_def)
next
  case (Cons x xs)
  show ?case
  proof (cases "component (this_state s) x")
    case None
    then show ?thesis by (simp add: throw_def)
  next
    case (Some c)
    have "eraseValidation (componentsOf (s\<lparr>this_state := setComponent x (stamp (this_state s) p c) (this_state s)\<rparr>))
          = eraseValidation (componentsOf s)"
      using Some by (simp add: componentsOf_def stamp_def erase_setComponent)
    then show ?thesis
      unfolding validateAll_step[OF Some] Cons.IH .
  qed
qed

lemma clearValidation_result:
  "\<forall>x\<in>set xs. component (this_state s) x \<noteq> None \<Longrightarrow>
   \<exists>s'. clearValidation xs s = (Inr (), s')
      \<and> sameButComponents s s'
      \<and> eraseValidation (componentsOf s') = eraseValidation (componentsOf s)
      \<and> (\<forall>k. component (this_state s') k =
               (if k \<in> set xs then map_option (\<lambda>c. c\<lparr>validation := None\<rparr>) (component (this_state s) k)
                else component (this_state s) k))"
proof (induction xs arbitrary: s)
  case Nil
  then show ?case by (simp add: ret_def sameButComponents_def)
next
  case (Cons x xs)
  from Cons.prems obtain c where c: "component (this_state s) x = Some c" by auto
  let ?s1 = "s\<lparr>this_state := setComponent x (c\<lparr>validation := None\<rparr>) (this_state s)\<rparr>"
  have step: "clearValidation (x # xs) s = clearValidation xs ?s1"
    using c by simp
  have fr: "sameButComponents s ?s1" by (rule frame_setComponent)
  have er: "eraseValidation (componentsOf ?s1) = eraseValidation (componentsOf s)"
    using c by (simp add: componentsOf_def erase_setComponent)
  have comp1: "\<And>k. component (this_state ?s1) k =
                  (if k = x then Some (c\<lparr>validation := None\<rparr>) else component (this_state s) k)"
    by (simp add: component_setComponent)
  have pre: "\<forall>y\<in>set xs. component (this_state ?s1) y \<noteq> None"
    using Cons.prems by (auto simp: component_setComponent)
  from Cons.IH[OF pre] obtain s' where
    run: "clearValidation xs ?s1 = (Inr (), s')"
    and fr': "sameButComponents ?s1 s'"
    and er': "eraseValidation (componentsOf s') = eraseValidation (componentsOf ?s1)"
    and comp': "\<forall>k. component (this_state s') k =
               (if k \<in> set xs then map_option (\<lambda>c. c\<lparr>validation := None\<rparr>) (component (this_state ?s1) k)
                else component (this_state ?s1) k)"
    by blast
  have res: "clearValidation (x # xs) s = (Inr (), s')"
    unfolding step run ..
  have frame: "sameButComponents s s'"
    using fr fr' by (simp add: sameButComponents_def)
  have erase: "eraseValidation (componentsOf s') = eraseValidation (componentsOf s)"
    unfolding er' er ..
  have comps: "\<forall>k. component (this_state s') k =
               (if k \<in> set (x # xs) then map_option (\<lambda>c. c\<lparr>validation := None\<rparr>) (component (this_state s) k)
                else component (this_state s) k)"
  proof -
    have "\<forall>k. component (this_state s') k =
               (if k \<in> set xs
                then map_option (\<lambda>c. c\<lparr>validation := None\<rparr>)
                       (if k = x then Some (c\<lparr>validation := None\<rparr>) else component (this_state s) k)
                else (if k = x then Some (c\<lparr>validation := None\<rparr>) else component (this_state s) k))"
      using comp' unfolding comp1 .
    then show ?thesis using c by auto
  qed
  from res frame erase comps show ?case by blast
qed

lemma clearHidden_erase: "clearHidden (c\<lparr>validation := v\<rparr>) = clearHidden c"
  by (rule ext) (simp add: clearHidden_def)

lemma fold_clearHidden_erase:
  "fold clearHidden (map snd (eraseValidation cs)) p = fold clearHidden (map snd cs) p"
  by (induction cs arbitrary: p) (auto simp: eraseValidation_def clearHidden_erase)

lemma cleanConnection_erase:
  assumes "eraseValidation (components (connectionComponents st'))
           = eraseValidation (components (connectionComponents st))"
    and "selectedInputMode st' = selectedInputMode st"
  shows "cleanConnection st' p = cleanConnection st p"
proof -
  have "fold clearHidden (map snd (components (connectionComponents st'))) p
      = fold clearHidden (map snd (components (connectionComponents st))) p"
    using fold_clearHidden_erase[of "components (connectionComponents st')" p]
          fold_clearHidden_erase[of "components (connectionComponents st)" p] assms(1)
    by simp
  then show ?thesis using assms(2) by (simp add: cleanConnection_alt Let_def)
qed

lemma reportsInvalid_erase: "reportsInvalid st p (c\<lparr>validation := v\<rparr>) = reportsInvalid st p c"
  by (simp add: reportsInvalid_def split: option.splits)

lemma reported_erased:
  "map propertyName (filter (reportsInvalid st p) (map (\<lambda>c. c\<lparr>validation := None\<rparr>) cs))
   = map propertyName (filter (reportsInvalid st p) cs)"
  by (induction cs) (auto simp: reportsInvalid_erase)

lemma getProp_clean_cases:
  "getProp (cleanConnection st p) k = getProp p k \<or> getProp (cleanConnection st p) k = JUndefined"
  by (auto simp: cleanConnection_alt Let_def getProp_def setProp_def update_conv'
        map_of_clearHidden map_of_clearUnless split: option.splits)

lemma active_frame:
  "getActiveFormComponents (st\<lparr>formError := e\<rparr>) = getActiveFormComponents st"
  "getActiveFormComponents (st\<lparr>connectionStatus := a\<rparr>) = getActiveFormComponents st"
  "getActiveFormComponents (st\<lparr>dialog := d\<rparr>) = getActiveFormComponents st"
  by (simp_all add: getActiveFormComponents_def)

lemma connectHelper_prefix:
  assumes wf: "\<forall>x\<in>set (getActiveFormComponents (this_state s)). component (this_state s) x \<noteq> None"
  shows "\<exists>s2 loading. connectHelper env s =
          (if filter (reportsInvalid (this_state s)
                        (cleanConnection (this_state s) (connectionProfile (this_state s))))
                     (specsOf (this_state s) (getActiveFormComponents (this_state s))) \<noteq> []
           then seq (modify (\<lambda>st. st\<lparr>connectionStatus := Error\<rparr>))
                    (emit (inputErrorsWarning (reportedInputs s))) s2
           else connectValidated env
                  (cleanConnection (this_state s) (connectionProfile (this_state s))) s2)
      \<and> published s2 = published s @ [loading]
      \<and> connectionStatus loading = Loading
      \<and> connectionStatus (this_state s2) = Loading
      \<and> events s2 = events s
      \<and> connectionProfile (this_state s2) = connectionProfile (this_state s)
      \<and> selectedInputMode (this_state s2) = selectedInputMode (this_state s)
      \<and> dialog (this_state s2) = dialog (this_state s)
      \<and> (\<forall>k. component (this_state s2) k =
            (if k \<in> set (getActiveFormComponents (this_state s))
             then map_option (\<lambda>c. c\<lparr>validation := expectedValidation (this_state s)
                       (cleanConnection (this_state s) (connectionProfile (this_state s)))
                       (c\<lparr>validation := None\<rparr>)\<rparr>) (component (this_state s) k)
             else component (this_state s) k))"
proof -
  define xs where "xs = getActiveFormComponents (this_state s)"
  define p where "p = cleanConnection (this_state s) (connectionProfile (this_state s))"
  define s0 where "s0 = s\<lparr>this_state := (this_state s)\<lparr>formError := []\<rparr>\<rparr>"
  have wf0: "\<forall>x\<in>set xs. component (this_state s0) x \<noteq> None"
    using wf by (simp add: component_def s0_def xs_def)
  from clearValidation_result[OF wf0] obtain sa where
    cv: "clearValidation xs s0 = (Inr (), sa)"
    and fra: "sameButComponents s0 sa"
    and era: "eraseValidation (componentsOf sa) = eraseValidation (componentsOf s0)"
    and compa: "\<forall>k. component (this_state sa) k =
               (if k \<in> set xs then map_option (\<lambda>c. c\<lparr>validation := None\<rparr>) (component (this_state s0) k)
                else component (this_state s0) k)"
    by blast
  have cfe: "clearFormError s = (Inr (), sa)"
    using cv by (simp add: clearFormError_def seq_def bnd_def modify_def gets_def active_frame
                   s0_def xs_def)
  define stb where "stb = (this_state sa)\<lparr>connectionStatus := Loading\<rparr>"
  define sc where "sc = sa\<lparr>this_state := stb, published := published sa @ [stb]\<rparr>"
  have prefix: "seq clearFormError
                  (seq (modify (\<lambda>st. st\<lparr>connectionStatus := Loading\<rparr>)) (seq updateState m)) s
                = m sc" for m :: "unit M"
    using cfe by (simp add: seq_def bnd_def modify_def updateState_def sc_def stb_def)
  have prof: "connectionProfile (this_state sc) = connectionProfile (this_state s)"
    and mode: "selectedInputMode (this_state sc) = selectedInputMode (this_state s)"
    and pub: "published sc = published s @ [stb]"
    and ev: "events sc = events s"
    and dlg: "dialog (this_state sc) = dialog (this_state s)"
    and xsc: "getActiveFormComponents (this_state sc) = xs"
    using fra by (simp_all add: sameButComponents_def getActiveFormComponents_def sc_def stb_def
                     s0_def xs_def)
  have compc: "\<And>k. component (this_state sc) k =
               (if k \<in> set xs then map_option (\<lambda>c. c\<lparr>validation := None\<rparr>) (component (this_state s) k)
                else component (this_state s) k)"
    using compa by (simp add: component_def sc_def stb_def s0_def)
  have erc: "eraseValidation (components (connectionComponents (this_state sc)))
             = eraseValidation (components (connectionComponents (this_state s)))"
    using era by (simp add: componentsOf_def sc_def stb_def s0_def)
  have clean: "cleanConnection (this_state sc) (connectionProfile (this_state sc)) = p"
    unfolding prof p_def by (rule cleanConnection_erase[OF erc mode])
  have wfc: "\<forall>x\<in>set (getActiveFormComponents (this_state sc)). component (this_state sc) x \<noteq> None"
    unfolding xsc compc using wf by (auto simp: xs_def)
  from whole_form_result[OF wfc, of p] obtain s2 where
    val: "validateConnectionProfile p None sc =
            (Inr (map propertyName
                   (filter (reportsInvalid (this_state sc) p)
                      (specsOf (this_state sc) (getActiveFormComponents (this_state sc))))), s2)"
    and fr2: "sameButComponents sc s2"
    and comp2: "\<forall>k. component (this_state s2) k =
            (if k \<in> set (getActiveFormComponents (this_state sc))
             then map_option (stamp (this_state sc) p) (component (this_state sc) k)
             else component (this_state sc) k)"
    by blast
  have specs: "specsOf (this_state sc) xs = map (\<lambda>c. c\<lparr>validation := None\<rparr>) (specsOf (this_state s) xs)"
    by (rule specsOf_after) (simp add: compc)
  have ri: "reportsInvalid (this_state sc) p = reportsInvalid (this_state s) p"
    by (rule ext) (rule reportsInvalid_cong[OF prof mode])
  have st: "stamp (this_state sc) p = stamp (this_state s) p"
    by (rule ext) (rule stamp_cong[OF prof mode])
  define errs where
    "errs = map propertyName (filter (reportsInvalid (this_state s) p) (specsOf (this_state s) xs))"
  have val': "validateConnectionProfile p None sc = (Inr errs, s2)"
    using val unfolding xsc specs ri reported_erased errs_def .
  have len: "(length errs > 0) = (filter (reportsInvalid (this_state s) p) (specsOf (this_state s) xs) \<noteq> [])"
    by (simp add: errs_def)
  have re: "reportedInputs s = errs"
    by (simp add: reportedInputs_def errs_def p_def xs_def)
  have body: "connectHelper env s =
          (if filter (reportsInvalid (this_state s) p) (specsOf (this_state s) xs) \<noteq> []
           then seq (modify (\<lambda>st. st\<lparr>connectionStatus := Error\<rparr>))
                    (emit (inputErrorsWarning (reportedInputs s))) s2
           else connectValidated env p s2)"
    unfolding connectHelper_def prefix re
    using val' len clean
    by (simp add: bnd_def gets_def)
  have comps2: "\<forall>k. component (this_state s2) k =
            (if k \<in> set xs
             then map_option (stamp (this_state s) p)
                    (if k \<in> set xs then map_option (\<lambda>c. c\<lparr>validation := None\<rparr>) (component (this_state s) k)
                     else component (this_state s) k)
             else (if k \<in> set xs then map_option (\<lambda>c. c\<lparr>validation := None\<rparr>) (component (this_state s) k)
                   else component (this_state s) k))"
    using comp2 unfolding xsc st compc .
  have comps: "\<forall>k. component (this_state s2) k =
            (if k \<in> set xs
             then map_option (\<lambda>c. c\<lparr>validation := expectedValidation (this_state s) p
                       (c\<lparr>validation := None\<rparr>)\<rparr>) (component (this_state s) k)
             else component (this_state s) k)"
  proof
    fix k
    show "component (this_state s2) k =
            (if k \<in> set xs
             then map_option (\<lambda>c. c\<lparr>validation := expectedValidation (this_state s) p
                       (c\<lparr>validation := None\<rparr>)\<rparr>) (component (this_state s) k)
             else component (this_state s) k)"
      using comps2 by (cases "component (this_state s) k") (auto simp: stamp_def)
  qed
  have "published s2 = published s @ [stb]"
    using fr2 pub by (simp add: sameButComponents_def)
  moreover have "connectionStatus stb = Loading" by (simp add: stb_def)
  moreover have "connectionStatus (this_state s2) = Loading"
    using fr2 by (simp add: sameButComponents_def sc_def stb_def)
  moreover have "events s2 = events s"
    using fr2 ev by (simp add: sameButComponents_def)
  moreover have "connectionProfile (this_state s2) = connectionProfile (this_state s)"
    using fr2 prof by (simp add: sameButComponents_def)
  moreover have "selectedInputMode (this_state s2) = selectedInputMode (this_state s)"
    using fr2 mode by (simp add: sameButComponents_def)
  moreover have "dialog (this_state s2) = dialog (this_state s)"
    using fr2 dlg by (simp add: sameButComponents_def)
  ultimately show ?thesis using body comps unfolding xs_def p_def by blast
qed

lemma connectHelper_invalid:
  assumes wf: "\<forall>x\<in>set (getActiveFormComponents (this_state s)). component (this_state s) x \<noteq> None"
    and inv: "filter (reportsInvalid (this_state s)
                        (cleanConnection (this_state s) (connectionProfile (this_state s))))
                     (specsOf (this_state s) (getActiveFormComponents (this_state s))) \<noteq> []"
  shows "\<exists>s' loading. connectHelper env s = (Inr (), s')
      \<and> connectionStatus (this_state s') = Error
      \<and> published s' = published s @ [loading]
      \<and> connectionStatus loading = Loading
      \<and> events s' = events s @ [inputErrorsWarning (reportedInputs s)]
      \<and> connectionProfile (this_state s') = connectionProfile (this_state s)
      \<and> dialog (this_state s') = dialog (this_state s)
      \<and> (\<forall>k. component (this_state s') k =
            (if k \<in> set (getActiveFormComponents (this_state s))
             then map_option (\<lambda>c. c\<lparr>validation := expectedValidation (this_state s)
                       (cleanConnection (this_state s) (connectionProfile (this_state s)))
                       (c\<lparr>validation := None\<rparr>)\<rparr>) (component (this_state s) k)
             else component (this_state s) k))"
proof -
  from connectHelper_prefix[OF wf, of env] inv obtain s2 loading where
    run: "connectHelper env s =
            seq (modify (\<lambda>st. st\<lparr>connectionStatus := Error\<rparr>))
                (emit (inputErrorsWarning (reportedInputs s))) s2"
    and f: "published s2 = published s @ [loading]" "connectionStatus loading = Loading"
       "events s2 = events s"
       "connectionProfile (this_state s2) = connectionProfile (this_state s)"
       "dialog (this_state s2) = dialog (this_state s)"
    and comps: "\<forall>k. component (this_state s2) k =
            (if k \<in> set (getActiveFormComponents (this_state s))
             then map_option (\<lambda>c. c\<lparr>validation := expectedValidation (this_state s)
                       (cleanConnection (this_state s) (connectionProfile (this_state s)))
                       (c\<lparr>validation := None\<rparr>)\<rparr>) (component (this_state s) k)
             else component (this_state s) k)"
    by auto
  define s' where "s' = s2\<lparr>this_state := (this_state s2)\<lparr>connectionStatus := Error\<rparr>,
                events := events s2 @ [inputErrorsWarning (reportedInputs s)]\<rparr>"
  have "connectHelper env s = (Inr (), s')"
    unfolding run by (simp add: seq_def bnd_def modify_def emit_def s'_def)
  moreover have "\<forall>k. component (this_state s') k = component (this_state s2) k"
    by (simp add: s'_def component_def)
  moreover have "connectionStatus (this_state s') = Error" "published s' = published s2"
    "events s' = events s2 @ [inputErrorsWarning (reportedInputs s)]"
    "connectionProfile (this_state s') = connectionProfile (this_state s2)"
    "dialog (this_state s') = dialog (this_state s2)"
    by (simp_all add: s'_def)
  ultimately show ?thesis using f comps by auto
qed

lemma in_specsOf: "x \<in> set xs \<Longrightarrow> component st x = Some c \<Longrightarrow> c \<in> set (specsOf st xs)"
  by (induction xs) (auto simp: specsOf_def)

text \<open>
  C3. When every active field has a component and whole-form validation of the cleaned
  copy finds an invalid field, \<open>connectHelper\<close> returns with the status \<open>Error\<close>, having
  posted one snapshot, whose status is \<open>Loading\<close>, and having added one event, the
  console warning: the remote validate-and-save call is not made. In particular, with
  input mode Parameters or AzureBrowse, SQL login and a falsy \<open>server\<close> whose component
  is visible and carries the server validator, this is what happens, and the server
  component ends with the invalid result.
\<close>

theorem C3_invalid_input_stops_connect:
  assumes "\<forall>x\<in>set (getActiveFormComponents (this_state s)). component (this_state s) x \<noteq> None"
  shows
    "(filter (reportsInvalid (this_state s)
                (cleanConnection (this_state s) (connectionProfile (this_state s))))
             (specsOf (this_state s) (getActiveFormComponents (this_state s))) \<noteq> []
      \<longrightarrow> (\<exists>s' loading. connectHelper env s = (Inr (), s')
             \<and> published s' = published s @ [loading]
             \<and> connectionStatus loading = Loading
             \<and> connectionStatus (this_state s') = Error
             \<and> events s' = events s @ [inputErrorsWarning (reportedInputs s)]))
   \<and> ((selectedInputMode (this_state s) = Parameters \<or> selectedInputMode (this_state s) = AzureBrowse)
       \<and> ''server'' \<in> set (mainOptions (connectionComponents (this_state s)))
       \<and> (\<exists>c. component (this_state s) ''server'' = Some c \<and> \<not> hidden c
               \<and> validate c = Some ServerRequired \<and> propertyName c = Some ''server'')
       \<and> authenticationType (this_state s) = SqlLogin
       \<and> \<not> truthy (getProp (connectionProfile (this_state s)) ''server'')
      \<longrightarrow> (\<exists>s' loading c'. connectHelper env s = (Inr (), s')
             \<and> published s' = published s @ [loading]
             \<and> connectionStatus loading = Loading
             \<and> connectionStatus (this_state s') = Error
             \<and> events s' = events s @ [inputErrorsWarning (reportedInputs s)]
             \<and> component (this_state s') ''server'' = Some c'
             \<and> validation c' = Some (invalid ''Loc.serverIsRequired'')))"
proof (intro conjI impI)
  assume "filter (reportsInvalid (this_state s)
                (cleanConnection (this_state s) (connectionProfile (this_state s))))
             (specsOf (this_state s) (getActiveFormComponents (this_state s))) \<noteq> []"
  from connectHelper_invalid[OF assms this, of env]
  show "\<exists>s' loading. connectHelper env s = (Inr (), s')
             \<and> published s' = published s @ [loading]
             \<and> connectionStatus loading = Loading
             \<and> connectionStatus (this_state s') = Error
             \<and> events s' = events s @ [inputErrorsWarning (reportedInputs s)]"
    by blast
next
  define p where "p = cleanConnection (this_state s) (connectionProfile (this_state s))"
  assume sql: "(selectedInputMode (this_state s) = Parameters \<or> selectedInputMode (this_state s) = AzureBrowse)
       \<and> ''server'' \<in> set (mainOptions (connectionComponents (this_state s)))
       \<and> (\<exists>c. component (this_state s) ''server'' = Some c \<and> \<not> hidden c
               \<and> validate c = Some ServerRequired \<and> propertyName c = Some ''server'')
       \<and> authenticationType (this_state s) = SqlLogin
       \<and> \<not> truthy (getProp (connectionProfile (this_state s)) ''server'')"
  then obtain c where c: "component (this_state s) ''server'' = Some c" "\<not> hidden c"
      "validate c = Some ServerRequired" "propertyName c = Some ''server''"
    by blast
  from sql have active: "''server'' \<in> set (getActiveFormComponents (this_state s))"
    by (auto simp: getActiveFormComponents_def)
  have falsy: "\<not> truthy (getProp p ''server'')"
    using sql getProp_clean_cases[of "this_state s" "connectionProfile (this_state s)" "''server''"]
    by (auto simp: p_def)
  have run: "runValidator (this_state s) ServerRequired (getProp p ''server'')
             = invalid ''Loc.serverIsRequired''"
    using sql falsy by simp
  have rep: "reportsInvalid (this_state s) p c"
    using c run by (simp add: reportsInvalid_def invalid_def)
  have "c \<in> set (filter (reportsInvalid (this_state s) p)
                    (specsOf (this_state s) (getActiveFormComponents (this_state s))))"
    using in_specsOf[OF active c(1)] rep by simp
  then have inv: "filter (reportsInvalid (this_state s)
                (cleanConnection (this_state s) (connectionProfile (this_state s))))
             (specsOf (this_state s) (getActiveFormComponents (this_state s))) \<noteq> []"
    unfolding p_def by (metis empty_iff list.set(1))
  from connectHelper_invalid[OF assms inv, of env] obtain s' loading where
    r: "connectHelper env s = (Inr (), s')"
       "published s' = published s @ [loading]"
       "connectionStatus loading = Loading"
       "connectionStatus (this_state s') = Error"
       "events s' = events s @ [inputErrorsWarning (reportedInputs s)]"
    and comps: "\<forall>k. component (this_state s') k =
            (if k \<in> set (getActiveFormComponents (this_state s))
             then map_option (\<lambda>c. c\<lparr>validation := expectedValidation (this_state s) p
                       (c\<lparr>validation := None\<rparr>)\<rparr>) (component (this_state s) k)
             else component (this_state s) k)"
    unfolding p_def by blast
  define c' where "c' = c\<lparr>validation := expectedValidation (this_state s) p (c\<lparr>validation := None\<rparr>)\<rparr>"
  have "component (this_state s') ''server'' = Some c'"
    using comps active c(1) by (simp add: c'_def)
  moreover have "validation c' = Some (invalid ''Loc.serverIsRequired'')"
    using c run by (simp add: c'_def expectedValidation_def)
  ultimately show "\<exists>s' loading c'. connectHelper env s = (Inr (), s')
             \<and> published s' = published s @ [loading]
             \<and> connectionStatus loading = Loading
             \<and> connectionStatus (this_state s') = Error
             \<and> events s' = events s @ [inputErrorsWarning (reportedInputs s)]
             \<and> component (this_state s') ''server'' = Some c'
             \<and> validation c' = Some (invalid ''Loc.serverIsRequired'')"
    using r by blast
qed

lemma example_mainOptions:
  "mainOptions (connectionComponents (exampleState m p)) =
     [''server'', ''authenticationType'', ''user'', ''password'', ''savePassword'',
      ''accountId'', ''tenantId'']"
  by (simp add: exampleState_def)

theorem C3_invalid_input_stops_connect_witness:
  "list_all (\<lambda>x. component (this_state (ctrlOf (exampleState Parameters sqlProfile))) x \<noteq> None)
      (getActiveFormComponents (this_state (ctrlOf (exampleState Parameters sqlProfile))))
   \<and> authenticationType (this_state (ctrlOf (exampleState Parameters sqlProfile))) = SqlLogin
   \<and> getProp (connectionProfile (this_state (ctrlOf (exampleState Parameters sqlProfile)))) ''server''
       = JStr []
   \<and> fst (connectHelper exampleEnv (ctrlOf (exampleState Parameters sqlProfile))) = Inr ()
   \<and> map connectionStatus (published (snd (connectHelper exampleEnv (ctrlOf (exampleState Parameters sqlProfile)))))
       = [Loading]
   \<and> connectionStatus (this_state (snd (connectHelper exampleEnv (ctrlOf (exampleState Parameters sqlProfile)))))
       = Error
   \<and> events (snd (connectHelper exampleEnv (ctrlOf (exampleState Parameters sqlProfile))))
       = [ConsoleWarn ''One more more inputs have errors: server'']
   \<and> map_option validation
        (component (this_state (snd (connectHelper exampleEnv (ctrlOf (exampleState Parameters sqlProfile)))))
           ''server'')
       = Some (Some (invalid ''Loc.serverIsRequired''))"
proof -
  define s where "s = ctrlOf (exampleState Parameters sqlProfile)"
  have hyp: "\<forall>x\<in>set (getActiveFormComponents (this_state s)). component (this_state s) x \<noteq> None"
    by (simp add: s_def example_simps exampleComponents_def)
  have sql: "(selectedInputMode (this_state s) = Parameters \<or> selectedInputMode (this_state s) = AzureBrowse)
       \<and> ''server'' \<in> set (mainOptions (connectionComponents (this_state s)))
       \<and> (\<exists>c. component (this_state s) ''server'' = Some c \<and> \<not> hidden c
               \<and> validate c = Some ServerRequired \<and> propertyName c = Some ''server'')
       \<and> authenticationType (this_state s) = SqlLogin
       \<and> \<not> truthy (getProp (connectionProfile (this_state s)) ''server'')"
    by (simp add: s_def example_simps example_mainOptions exampleComponents_def builtinSpec_def
          emptySpec_def sqlProfile_def getProp_def)
  from C3_invalid_input_stops_connect[OF hyp, of exampleEnv] sql
  obtain s' loading c' where r: "connectHelper exampleEnv s = (Inr (), s')"
       "published s' = published s @ [loading]"
       "connectionStatus loading = Loading"
       "connectionStatus (this_state s') = Error"
       "events s' = events s @ [inputErrorsWarning (reportedInputs s)]"
       "component (this_state s') ''server'' = Some c'"
       "validation c' = Some (invalid ''Loc.serverIsRequired'')"
    by blast
  have "list_all (\<lambda>x. component (this_state s) x \<noteq> None) (getActiveFormComponents (this_state s))"
    using hyp by (simp add: list_all_iff)
  moreover have "authenticationType (this_state s) = SqlLogin"
    using sql by simp
  moreover have "getProp (connectionProfile (this_state s)) ''server'' = JStr []"
    by (simp add: s_def example_simps sqlProfile_def getProp_def)
  moreover have "published s = []" "events s = []"
    by (simp_all add: s_def example_simps)
  moreover have "inputErrorsWarning (reportedInputs s)
                 = ConsoleWarn ''One more more inputs have errors: server''"
    by (simp add: inputErrorsWarning_def reportedInputs_def s_def example_simps specsOf_def
          exampleComponents_def reportsInvalid_def builtinSpec_def emptySpec_def sqlProfile_def
          getProp_def invalid_def valid_def SqlLogin_def AzureMFA_def cleanConnection_def
          clearHidden_def setProp_def)
  ultimately show ?thesis
    using r unfolding s_def[symmetric] by simp
qed

section \<open>The firewall error\<close>




section \<open>Adding a firewall rule\<close>

text \<open>
  C7, as the code has it. When building the identity for the tenant fails, the
  \<open>addFirewallRule\<close> reducer sets the form error, clears the dialog and returns: nothing
  is posted and \<open>connectHelper\<close> does not run. When the identity is built and the
  firewall service answers, the reducer clears the dialog, writes the form error if the
  rule was not created, posts that state and then runs \<open>connectHelper\<close> on it.
\<close>

theorem C7_add_firewall_rule:
  "(\<forall>e. constructAzureAccountForTenant env (payload_tenantId payload) = Inl e \<longrightarrow>
      (\<exists>s'. addFirewallRule env payload s = (Inr (), s')
         \<and> this_state s' = (this_state s)
              \<lparr> formError := errorCreatingFirewallRule (payloadRule payload) (getErrorMessage e),
                dialog := None \<rparr>
         \<and> published s' = published s
         \<and> events s' = events s @
              [ConsoleDebug (''Setting firewall rule: '' @ payloadRule payload),
               ErrorEvent ''AddFirewallRule'' ''constructAzureAccountForTenant'']))
   \<and> (\<forall>account tokenMappings result.
        constructAzureAccountForTenant env (payload_tenantId payload) = Inr (account, tokenMappings)
        \<and> createFirewallRule env
             (firewallRequest payload account tokenMappings
                (getProp (connectionProfile (this_state s)) ''server'')) = Inr result
        \<longrightarrow> (\<exists>s1. addFirewallRule env payload s = connectHelper env s1
               \<and> this_state s1 = afterFirewallRule payload result (this_state s)
               \<and> published s1 = published s @ [afterFirewallRule payload result (this_state s)]
               \<and> dialog (this_state s1) = None))"
  by (auto simp: addFirewallRule_def afterFirewallRule_def try_catch_def seq_def bnd_def emit_def
        await_def modify_def ret_def gets_def updateState_def)

lemma example_construct:
  "constructAzureAccountForTenant noSigninEnv (payload_tenantId examplePayload)
     = Inl (Thrown ''sign-in failed'')"
  "constructAzureAccountForTenant exampleEnv (payload_tenantId examplePayload)
     = Inr (\<lparr> displayInfo = Some \<lparr> di_displayName = ''alice@contoso'', userId = ''alice@contoso'' \<rparr>,
              key_id = ''alice@contoso'',
              tenants = Some (Some [Some \<lparr> tenant_displayName = ''t1'', tenant_id = ''t1'' \<rparr>]) \<rparr>,
            [(''t1'', ''tok'')])"
  by (simp_all add: constructAzureAccountForTenant_def noSigninEnv_def exampleEnv_def
        examplePayload_def authAlice_def subContoso_def)

lemma example_construct_fails:
  "constructAzureAccountForTenant noSigninEnv ''t1'' = Inl (Thrown ''sign-in failed'')"
  by (simp add: constructAzureAccountForTenant_def noSigninEnv_def)

theorem C7_add_firewall_rule_witness:
  "constructAzureAccountForTenant noSigninEnv (payload_tenantId examplePayload)
     = Inl (Thrown ''sign-in failed'')
   \<and> fst (addFirewallRule noSigninEnv examplePayload (ctrlOf firewallState)) = Inr ()
   \<and> dialog (this_state (snd (addFirewallRule noSigninEnv examplePayload (ctrlOf firewallState))))
       = None
   \<and> formError (this_state (snd (addFirewallRule noSigninEnv examplePayload (ctrlOf firewallState))))
       = errorCreatingFirewallRule (payloadRule examplePayload) ''sign-in failed''
   \<and> (\<exists>account tokenMappings.
         constructAzureAccountForTenant exampleEnv (payload_tenantId examplePayload)
           = Inr (account, tokenMappings)
         \<and> createFirewallRule exampleEnv
              (firewallRequest examplePayload account tokenMappings
                 (getProp (connectionProfile (this_state (ctrlOf firewallState))) ''server''))
            = Inr \<lparr> cf_result = True, cf_errorMessage = [] \<rparr>)
   \<and> (\<exists>s1. addFirewallRule exampleEnv examplePayload (ctrlOf firewallState)
              = connectHelper exampleEnv s1
            \<and> this_state s1 = firewallState\<lparr>dialog := None\<rparr>
            \<and> published s1 = [firewallState\<lparr>dialog := None\<rparr>])"
proof -
  have create: "createFirewallRule exampleEnv r = Inr \<lparr> cf_result = True, cf_errorMessage = [] \<rparr>" for r
    by (simp add: exampleEnv_def)
  have after: "afterFirewallRule examplePayload \<lparr> cf_result = True, cf_errorMessage = [] \<rparr> firewallState
               = firewallState\<lparr>dialog := None\<rparr>"
    by (simp add: afterFirewallRule_def firewallState_def)
  from C7_add_firewall_rule[of noSigninEnv examplePayload "ctrlOf firewallState"] example_construct(1)
  have fail: "fst (addFirewallRule noSigninEnv examplePayload (ctrlOf firewallState)) = Inr ()"
    "dialog (this_state (snd (addFirewallRule noSigninEnv examplePayload (ctrlOf firewallState)))) = None"
    "formError (this_state (snd (addFirewallRule noSigninEnv examplePayload (ctrlOf firewallState))))
       = errorCreatingFirewallRule (payloadRule examplePayload) ''sign-in failed''"
    by auto
  from C7_add_firewall_rule[of exampleEnv examplePayload "ctrlOf firewallState"]
       example_construct(2) create
  have ok: "\<exists>s1. addFirewallRule exampleEnv examplePayload (ctrlOf firewallState)
              = connectHelper exampleEnv s1
            \<and> this_state s1 = firewallState\<lparr>dialog := None\<rparr>
            \<and> published s1 = [firewallState\<lparr>dialog := None\<rparr>]"
    by (auto simp: after example_simps)
  show ?thesis using fail ok example_construct create by simp
qed

text \<open>
  The claim as first worded has the connect flow retried after every outcome. With a
  failing sign-in the reducer ends with the dialog cleared and the form error set, and
  has posted no snapshot and made no remote call: the status is still \<open>Error\<close>.
\<close>

theorem C7_no_retry_counterexample:
  "constructAzureAccountForTenant noSigninEnv (payload_tenantId examplePayload)
     = Inl (Thrown ''sign-in failed'')
   \<and> addFirewallRule noSigninEnv examplePayload (ctrlOf firewallState) =
      (Inr (),
       \<lparr> this_state = firewallState
           \<lparr> formError := errorCreatingFirewallRule (payloadRule examplePayload) ''sign-in failed'',
             dialog := None \<rparr>,
         published = [],
         events = [ConsoleDebug (''Setting firewall rule: '' @ payloadRule examplePayload),
                   ErrorEvent ''AddFirewallRule'' ''constructAzureAccountForTenant''] \<rparr>)
   \<and> connectionStatus firewallState = Error"
proof -
  have tid: "payload_tenantId examplePayload = ''t1''"
    by (simp add: examplePayload_def)
  have st: "connectionStatus firewallState = Error"
    by (simp add: firewallState_def)
  show ?thesis
    by (simp add: tid st example_construct_fails addFirewallRule_def try_catch_def seq_def bnd_def
          emit_def await_def modify_def ret_def ctrlOf_def)
qed

section \<open>Edits under Azure MFA\<close>

lemma buttons_shape:
  "getAzureActionButtons env st = Inr bs \<Longrightarrow>
   bs = signInButton # (if tokenExpired env st then [refreshTokenButton] else [])"
  by (auto simp: getAzureActionButtons_def tokenExpired_def
           split: if_splits sum.splits option.splits)

lemma getTenants_run:
  "\<exists>s'. getTenants env a s = (Inr (case tenantLookup env a of Inl e \<Rightarrow> [] | Inr ts \<Rightarrow> ts), s')
       \<and> this_state s' = this_state s \<and> published s' = published s"
  by (simp add: getTenants_def try_catch_def await_def seq_def bnd_def emit_def ret_def
           split: sum.splits)

lemma frame_profile:
  "getFormComponent (setProfile k v st) x = getFormComponent st x"
  "component (setProfile k v st) x = component st x"
  "authenticationType (setProfile ''accountId'' v st) = authenticationType st"
  "authenticationType (setProfile ''tenantId'' v st) = authenticationType st"
  "accountId (setProfile ''tenantId'' v st) = accountId st"
  by (simp_all add: getFormComponent_def getActiveFormComponents_def component_def setProfile_def
        authenticationType_def accountId_def getProp_def setProp_def update_conv')

lemma buttons_cong:
  assumes "connectionProfile st' = connectionProfile st"
  shows "getAzureActionButtons env st' = getAzureActionButtons env st"
proof -
  have a: "authenticationType st' = authenticationType st" "accountId st' = accountId st"
    using assms by (simp_all add: authenticationType_def accountId_def)
  show ?thesis unfolding getAzureActionButtons_def findAccount_def a ..
qed

lemma refresh_run:
  assumes ac: "component st ''accountId'' = Some ac"
    and tc: "component st ''tenantId'' = Some tc"
    and st: "this_state s = st"
    and bs: "getAzureActionButtons env (selectTenant env st) = Inr bs"
  shows "\<exists>s'. refreshTenantsAndButtons env (Some ac0) (Some tc0) s = (Inr (), s')
      \<and> connectionProfile (this_state s') = connectionProfile (selectTenant env st)
      \<and> map_option options (component (this_state s') ''tenantId'') = Some (Some (tenantsFound env st))
      \<and> map_option actionButtons (component (this_state s') ''accountId'') = Some (Some bs)
      \<and> published s' = published s"
proof -
  from getTenants_run[of env "accountId st" s] obtain s1 where
    gt: "getTenants env (accountId st) s = (Inr (tenantsFound env st), s1)"
    and s1: "this_state s1 = st" "published s1 = published s"
    using st by (auto simp: tenantsFound_def)
  define st2 where "st2 = setComponent ''tenantId'' (tc\<lparr>options := Some (tenantsFound env st)\<rparr>) st"
  define st3 where "st3 = (case tenantsFound env st of [] \<Rightarrow> st2
                           | t # _ \<Rightarrow> setProfile ''tenantId'' (JStr (opt_value t)) st2)"
  have prof3: "connectionProfile st3 = connectionProfile (selectTenant env st)"
    by (simp add: st3_def st2_def selectTenant_def setProfile_def setComponent_def setComponents_def
           split: list.splits)
  have btn3: "getAzureActionButtons env st3 = getAzureActionButtons env (selectTenant env st)"
    by (rule buttons_cong[OF prof3])
  have comp3: "component st3 ''accountId'' = Some ac"
       "component st3 ''tenantId'' = Some (tc\<lparr>options := Some (tenantsFound env st)\<rparr>)"
    using ac by (simp_all add: st3_def st2_def component_setComponent frame_profile split: list.splits)
  define st4 where "st4 = setComponent ''accountId'' (ac\<lparr>actionButtons := Some bs\<rparr>) st3"
  have run: "refreshTenantsAndButtons env (Some ac0) (Some tc0) s
             = (Inr (), s1\<lparr>this_state := st4\<rparr>)"
    using gt s1 st tc bs btn3 comp3
    by (simp add: refreshTenantsAndButtons_def bnd_def gets_def seq_def modify_def ret_def await_def
          st4_def st3_def[symmetric] st2_def[symmetric] split: list.splits)
       (auto simp: st3_def st2_def modify_def split: list.splits)
  have "connectionProfile st4 = connectionProfile (selectTenant env st)"
    using prof3 by (simp add: st4_def setComponent_def setComponents_def)
  moreover have "map_option options (component st4 ''tenantId'') = Some (Some (tenantsFound env st))"
    using comp3 by (simp add: st4_def component_setComponent)
  moreover have "map_option actionButtons (component st4 ''accountId'') = Some (Some bs)"
    by (simp add: st4_def component_setComponent)
  ultimately show ?thesis using run s1 by simp
qed

lemma getFormComponent_Some: "getFormComponent st x = Some c \<Longrightarrow> component st x = Some c"
  by (simp add: getFormComponent_def split: if_splits)

lemma mfa_edit_run:
  assumes pn: "propName = ''accountId'' \<or> propName = ''authenticationType''"
    and mfa: "authenticationType (this_state s) = AzureMFA"
    and ac: "getFormComponent (this_state s) ''accountId'' = Some ac" "options ac = Some os"
    and tc: "getFormComponent (this_state s) ''tenantId'' = Some tc"
    and bs: "getAzureActionButtons env (selectTenant env (selectAccount propName (this_state s))) = Inr bs"
  shows "\<exists>s'. handleAzureMFAEdits env propName s = (Inr (), s')
      \<and> connectionProfile (this_state s')
          = connectionProfile (selectTenant env (selectAccount propName (this_state s)))
      \<and> map_option options (component (this_state s') ''tenantId'')
          = Some (Some (tenantsFound env (selectAccount propName (this_state s))))
      \<and> map_option actionButtons (component (this_state s') ''accountId'') = Some (Some bs)"
proof -
  define st1 where "st1 = selectAccount propName (this_state s)"
  define s1 where "s1 = s\<lparr>this_state := st1\<rparr>"
  have comp1: "component st1 ''accountId'' = Some ac" "component st1 ''tenantId'' = Some tc"
    using getFormComponent_Some[OF ac(1)] getFormComponent_Some[OF tc]
    by (simp_all add: st1_def selectAccount_def frame_profile split: option.splits list.splits)
  have st: "this_state s1 = st1" by (simp add: s1_def)
  have bs1: "getAzureActionButtons env (selectTenant env st1) = Inr bs"
    using bs by (simp add: st1_def)
  have call: "handleAzureMFAEdits env propName s
              = refreshTenantsAndButtons env (Some ac) (Some tc) s1"
  proof (cases "propName = ''accountId''")
    case True
    then have "st1 = this_state s" by (simp add: st1_def selectAccount_def)
    then have "s1 = s" by (simp add: s1_def)
    then show ?thesis using True mfa ac tc
      by (simp add: handleAzureMFAEdits_def bnd_def gets_def Let_def)
  next
    case False
    then have p: "propName = ''authenticationType''" using pn by simp
    have "(case os of [] \<Rightarrow> ret ()
           | firstOption # _ \<Rightarrow> modify (setProfile ''accountId'' (JStr (opt_value firstOption)))) s
          = (Inr (), s1)"
      using ac p by (simp add: s1_def st1_def selectAccount_def ret_def modify_def split: list.splits)
    then show ?thesis using p mfa ac tc
      by (simp add: handleAzureMFAEdits_def bnd_def gets_def Let_def seq_def)
  qed
  from refresh_run[OF comp1 st bs1, of ac tc] obtain s' where
    "refreshTenantsAndButtons env (Some ac) (Some tc) s1 = (Inr (), s')"
    "connectionProfile (this_state s') = connectionProfile (selectTenant env st1)"
    "map_option options (component (this_state s') ''tenantId'') = Some (Some (tenantsFound env st1))"
    "map_option actionButtons (component (this_state s') ''accountId'') = Some (Some bs)"
    by blast
  then show ?thesis unfolding call st1_def by blast
qed

text \<open>
  C8, as the code has it. When the authentication type is not Azure MFA,
  \<open>handleAzureMFAEdits\<close> changes nothing, and on an edit of \<open>tenantId\<close> it changes nothing
  either. On an edit of \<open>accountId\<close> or \<open>authenticationType\<close> under Azure MFA, with the
  account and tenant fields active and the buttons computed without a throw, it selects
  the first account option (for \<open>authenticationType\<close>), fetches the tenants of the
  selected account into the options of the tenant field, selects the first tenant when
  there is one, and gives the account field the sign-in button, followed by the
  token-refresh button exactly when the token of the current account is expired.
\<close>

theorem C8_mfa_edits:
  "(authenticationType (this_state s) \<noteq> AzureMFA \<longrightarrow>
      handleAzureMFAEdits env propName s = (Inr (), s))
   \<and> handleAzureMFAEdits env ''tenantId'' s = (Inr (), s)
   \<and> ((propName = ''accountId'' \<or> propName = ''authenticationType'')
       \<and> authenticationType (this_state s) = AzureMFA
       \<and> (\<exists>ac os. getFormComponent (this_state s) ''accountId'' = Some ac \<and> options ac = Some os)
       \<and> (\<exists>tc. getFormComponent (this_state s) ''tenantId'' = Some tc)
       \<and> getAzureActionButtons env (selectTenant env (selectAccount propName (this_state s))) = Inr bs
      \<longrightarrow> (\<exists>s'. handleAzureMFAEdits env propName s = (Inr (), s')
            \<and> connectionProfile (this_state s')
                = connectionProfile (selectTenant env (selectAccount propName (this_state s)))
            \<and> map_option options (component (this_state s') ''tenantId'')
                = Some (Some (tenantsFound env (selectAccount propName (this_state s))))
            \<and> map_option actionButtons (component (this_state s') ''accountId'') = Some (Some bs)
            \<and> bs = signInButton #
                   (if tokenExpired env (selectTenant env (selectAccount propName (this_state s)))
                    then [refreshTokenButton] else [])))"
proof (intro conjI impI)
  assume "authenticationType (this_state s) \<noteq> AzureMFA"
  then show "handleAzureMFAEdits env propName s = (Inr (), s)"
    by (simp add: handleAzureMFAEdits_def bnd_def gets_def ret_def)
next
  show "handleAzureMFAEdits env ''tenantId'' s = (Inr (), s)"
    by (simp add: handleAzureMFAEdits_def bnd_def gets_def ret_def Let_def)
next
  assume h: "(propName = ''accountId'' \<or> propName = ''authenticationType'')
       \<and> authenticationType (this_state s) = AzureMFA
       \<and> (\<exists>ac os. getFormComponent (this_state s) ''accountId'' = Some ac \<and> options ac = Some os)
       \<and> (\<exists>tc. getFormComponent (this_state s) ''tenantId'' = Some tc)
       \<and> getAzureActionButtons env (selectTenant env (selectAccount propName (this_state s))) = Inr bs"
  then obtain ac os tc where c: "getFormComponent (this_state s) ''accountId'' = Some ac"
      "options ac = Some os" "getFormComponent (this_state s) ''tenantId'' = Some tc"
    by blast
  from h have p: "propName = ''accountId'' \<or> propName = ''authenticationType''"
    and m: "authenticationType (this_state s) = AzureMFA"
    and b: "getAzureActionButtons env (selectTenant env (selectAccount propName (this_state s))) = Inr bs"
    by simp_all
  from mfa_edit_run[OF p m c(1) c(2) c(3) b] buttons_shape[OF b]
  show "\<exists>s'. handleAzureMFAEdits env propName s = (Inr (), s')
            \<and> connectionProfile (this_state s')
                = connectionProfile (selectTenant env (selectAccount propName (this_state s)))
            \<and> map_option options (component (this_state s') ''tenantId'')
                = Some (Some (tenantsFound env (selectAccount propName (this_state s))))
            \<and> map_option actionButtons (component (this_state s') ''accountId'') = Some (Some bs)
            \<and> bs = signInButton #
                   (if tokenExpired env (selectTenant env (selectAccount propName (this_state s)))
                    then [refreshTokenButton] else [])"
    by blast
qed

text \<open>
  The claim as first worded covers edits of \<open>tenantId\<close> too. On such an edit under Azure MFA
  the handler returns the state as it was: the account has one tenant, and the profile
  still has no \<open>tenantId\<close> and the tenant field still has no options.
\<close>

theorem C8_tenant_edit_counterexample:
  "authenticationType (this_state (ctrlOf (exampleState Parameters mfaProfile))) = AzureMFA
   \<and> tenantLookup exampleEnv (accountId (this_state (ctrlOf (exampleState Parameters mfaProfile))))
       = Inr [\<lparr> opt_displayName = ''Contoso'', opt_value = ''t1'' \<rparr>]
   \<and> handleAzureMFAEdits exampleEnv ''tenantId'' (ctrlOf (exampleState Parameters mfaProfile))
       = (Inr (), ctrlOf (exampleState Parameters mfaProfile))
   \<and> getProp (connectionProfile (this_state (ctrlOf (exampleState Parameters mfaProfile)))) ''tenantId''
       = JUndefined
   \<and> map_option options (component (this_state (ctrlOf (exampleState Parameters mfaProfile))) ''tenantId'')
       = Some (Some [])"
  by (simp add: example_simps mfaProfile_def getProp_def example_tenants handleAzureMFAEdits_def
        bnd_def gets_def ret_def Let_def exampleComponents_def builtinSpec_def emptySpec_def)

theorem C8_mfa_edits_witness:
  "authenticationType (this_state (ctrlOf (exampleState Parameters sqlProfile))) \<noteq> AzureMFA
   \<and> handleAzureMFAEdits exampleEnv ''accountId'' (ctrlOf (exampleState Parameters sqlProfile))
       = (Inr (), ctrlOf (exampleState Parameters sqlProfile))
   \<and> authenticationType (this_state (ctrlOf (exampleState Parameters mfaProfile))) = AzureMFA
   \<and> fst (handleAzureMFAEdits exampleEnv ''accountId'' (ctrlOf (exampleState Parameters mfaProfile)))
       = Inr ()
   \<and> getProp (connectionProfile (this_state
        (snd (handleAzureMFAEdits exampleEnv ''accountId'' (ctrlOf (exampleState Parameters mfaProfile))))))
        ''tenantId'' = JStr ''t1''
   \<and> map_option options (component (this_state
        (snd (handleAzureMFAEdits exampleEnv ''accountId'' (ctrlOf (exampleState Parameters mfaProfile)))))
        ''tenantId'') = Some (Some [\<lparr> opt_displayName = ''Contoso'', opt_value = ''t1'' \<rparr>])
   \<and> map_option actionButtons (component (this_state
        (snd (handleAzureMFAEdits exampleEnv ''accountId'' (ctrlOf (exampleState Parameters mfaProfile)))))
        ''accountId'') = Some (Some [signInButton, refreshTokenButton])"
proof -
  define s where "s = ctrlOf (exampleState Parameters mfaProfile)"
  define s0 where "s0 = ctrlOf (exampleState Parameters sqlProfile)"
  have sql: "authenticationType (this_state s0) \<noteq> AzureMFA"
    by (simp add: s0_def example_simps sqlProfile_def getProp_def SqlLogin_def AzureMFA_def)
  have mfa: "authenticationType (this_state s) = AzureMFA"
    by (simp add: s_def example_simps mfaProfile_def getProp_def)
  have sel: "selectAccount ''accountId'' (this_state s) = this_state s"
    by (simp add: selectAccount_def)
  have found: "tenantsFound exampleEnv (this_state s) = [\<lparr> opt_displayName = ''Contoso'', opt_value = ''t1'' \<rparr>]"
    by (simp add: tenantsFound_def s_def example_simps mfaProfile_def getProp_def example_tenants)
  have prof: "connectionProfile (selectTenant exampleEnv (this_state s))
              = mfaProfile @ [(''tenantId'', JStr ''t1'')]"
    unfolding selectTenant_def found
    by (simp add: setProfile_def setProp_def s_def example_simps mfaProfile_def)
  have auth2: "authenticationType (selectTenant exampleEnv (this_state s)) = AzureMFA"
    and acc2: "accountId (selectTenant exampleEnv (this_state s)) = JStr ''alice''"
    unfolding authenticationType_def accountId_def prof
    by (simp_all add: mfaProfile_def getProp_def)
  have fa: "findAccount exampleEnv (selectTenant exampleEnv (this_state s))
            = Inr (Some (Some accountAlice))"
    unfolding findAccount_def acc2 by (simp add: exampleEnv_def accountAlice_def)
  have tk: "getAccountSecurityToken exampleEnv accountAlice = Inr \<lparr> token = ''tok'', expiresOn = 0 \<rparr>"
       "isTokenInValid exampleEnv ''tok'' 0"
    by (simp_all add: exampleEnv_def)
  have btn: "getAzureActionButtons exampleEnv (selectTenant exampleEnv (this_state s))
             = Inr [signInButton, refreshTokenButton]"
    unfolding getAzureActionButtons_def auth2 acc2 fa by (simp add: tk)
  have comps: "\<exists>ac os. getFormComponent (this_state s) ''accountId'' = Some ac \<and> options ac = Some os"
       "\<exists>tc. getFormComponent (this_state s) ''tenantId'' = Some tc"
    by (simp_all add: getFormComponent_def s_def example_simps exampleComponents_def)
  from C8_mfa_edits[of s0 exampleEnv "''accountId''"] sql
  have r0: "handleAzureMFAEdits exampleEnv ''accountId'' s0 = (Inr (), s0)"
    by blast
  from C8_mfa_edits[of s exampleEnv "''accountId''" "[signInButton, refreshTokenButton]"]
       mfa comps btn
  obtain s' where r: "handleAzureMFAEdits exampleEnv ''accountId'' s = (Inr (), s')"
      "connectionProfile (this_state s') = connectionProfile (selectTenant exampleEnv (this_state s))"
      "map_option options (component (this_state s') ''tenantId'')
         = Some (Some (tenantsFound exampleEnv (this_state s)))"
      "map_option actionButtons (component (this_state s') ''accountId'')
         = Some (Some [signInButton, refreshTokenButton])"
    unfolding sel by blast
  have "getProp (connectionProfile (this_state s')) ''tenantId'' = JStr ''t1''"
    unfolding r(2) prof by (simp add: getProp_def mfaProfile_def)
  then show ?thesis
    using sql mfa r0 r found unfolding s_def[symmetric] s0_def[symmetric] by simp
qed

section \<open>Grouping the advanced options\<close>

















section \<open>Compiling a descriptor of unknown kind\<close>

lemma unknown_kind_step:
  assumes "co_valueType option \<notin> {''boolean'', ''string'', ''password'', ''number'', ''category''}"
  shows "compileOptions groupNames (option # rest) result s =
           compileOptions groupNames rest
             (AList.update (co_name option) (optionEntry groupNames option None) result)
             (s\<lparr>events := events s @
                  [LoggerLog (''Unhandled connection option type: '' @ co_valueType option),
                   ErrorEvent ''LoadConnectionProperties''
                     (''Unhandled connection option type: '' @ co_valueType option)]\<rparr>)"
  using assms
  by (simp add: convertToFormComponent_def try_catch_def bnd_def seq_def emit_def ret_def Let_def)

lemma string_kind_step:
  assumes "co_valueType option = ''string''"
  shows "compileOptions groupNames (option # rest) result s =
           compileOptions groupNames rest
             (AList.update (co_name option)
                (optionEntry groupNames option (Some (baseSpec option Input))) result) s"
  using assms
  by (simp add: convertToFormComponent_def try_catch_def bnd_def ret_def)

lemma exampleOption_simps:
  "co_name (exampleOption n k g) = n"
  "co_valueType (exampleOption n k g) = k"
  "co_groupName (exampleOption n k g) = g"
  by (simp_all add: exampleOption_def)

lemma example_compiled:
  "compileOptions (groupDisplayNames exampleCapabilities) (cap_options exampleCapabilities) [] s
   = (Inr [(''server'', optionEntry (groupDisplayNames exampleCapabilities)
                          (exampleOption ''server'' ''string'' ''source'')
                          (Some (baseSpec (exampleOption ''server'' ''string'' ''source'') Input))),
           (''user'', optionEntry (groupDisplayNames exampleCapabilities)
                          (exampleOption ''user'' ''string'' ''security'')
                          (Some (baseSpec (exampleOption ''user'' ''string'' ''security'') Input))),
           (''weird'', optionEntry (groupDisplayNames exampleCapabilities)
                          (exampleOption ''weird'' ''multiselect'' ''context'') None)],
      s\<lparr>events := events s @
         [LoggerLog ''Unhandled connection option type: multiselect'',
          ErrorEvent ''LoadConnectionProperties'' ''Unhandled connection option type: multiselect'']\<rparr>)"
proof -
  have opts: "cap_options exampleCapabilities =
     [exampleOption ''server'' ''string'' ''source'', exampleOption ''user'' ''string'' ''security'',
      exampleOption ''weird'' ''multiselect'' ''context'']"
    by (simp add: exampleCapabilities_def)
  show ?thesis
    unfolding opts
    by (simp add: string_kind_step unknown_kind_step exampleOption_simps ret_def
          del: compileOptions.simps(2))
qed

lemma complete_other:
  assumes "map_of comps ''server'' = Some sv" "map_of comps ''user'' = Some us"
    and "getAccounts env s = (Inr accounts, s1)" "this_state s1 = this_state s"
    and "getAzureActionButtons env (this_state s) = Inr bs"
    and "k \<notin> set [''profileName'', ''savePassword'', ''accountId'', ''tenantId'',
                     ''connectionString'', ''server'', ''user'']"
  shows "\<exists>comps'. completeFormComponents env comps s = (Inr comps', s1)
           \<and> map_of comps' k = map_of comps k"
  using assms
  by (simp add: completeFormComponents_def bnd_def gets_def await_def Let_def setValidate_def
        ret_def update_conv')

text \<open>
  C1, on the example capabilities, whose third descriptor has the value kind
  \<open>multiselect\<close>. Compiling does not throw, and it logs and reports the descriptor. The
  field is not left out of the result: \<open>convertToFormComponent\<close> returns \<open>undefined\<close>
  instead of throwing, the spread of \<open>undefined\<close> adds nothing, and the entry stored
  under the field's name has \<open>isAdvancedOption\<close>, \<open>optionCategory\<close> and
  \<open>optionCategoryLabel\<close> and no property name, label or type.
\<close>

theorem C1_unknown_kind_entry_kept:
  "map_sum id (\<lambda>comps. map_of comps ''weird'')
        (fst (generateConnectionComponents exampleEnv (ctrlOf (exampleState Parameters sqlProfile))))
     = Inr (Some (emptySpec\<lparr> isAdvancedOption := True, optionCategory := Some ''context'',
                              optionCategoryLabel := Some (LabelText ''context'') \<rparr>))
   \<and> events (snd (generateConnectionComponents exampleEnv (ctrlOf (exampleState Parameters sqlProfile))))
     = [LoggerLog ''Unhandled connection option type: multiselect'',
        ErrorEvent ''LoadConnectionProperties'' ''Unhandled connection option type: multiselect'']"
proof -
  define s where "s = ctrlOf (exampleState Parameters sqlProfile)"
  define s1 where "s1 = s\<lparr>events := events s @
       [LoggerLog ''Unhandled connection option type: multiselect'',
        ErrorEvent ''LoadConnectionProperties'' ''Unhandled connection option type: multiselect'']\<rparr>"
  define compiled where "compiled =
          [(''server'', optionEntry (groupDisplayNames exampleCapabilities)
                          (exampleOption ''server'' ''string'' ''source'')
                          (Some (baseSpec (exampleOption ''server'' ''string'' ''source'') Input))),
           (''user'', optionEntry (groupDisplayNames exampleCapabilities)
                          (exampleOption ''user'' ''string'' ''security'')
                          (Some (baseSpec (exampleOption ''user'' ''string'' ''security'') Input))),
           (''weird'', optionEntry (groupDisplayNames exampleCapabilities)
                          (exampleOption ''weird'' ''multiselect'' ''context'') None)]"
  have w: "optionEntry (groupDisplayNames exampleCapabilities)
             (exampleOption ''weird'' ''multiselect'' ''context'') None
           = emptySpec\<lparr> isAdvancedOption := True, optionCategory := Some ''context'',
                              optionCategoryLabel := Some (LabelText ''context'') \<rparr>"
    by (simp add: optionEntry_def readProperty_def objectPrototypeMembers_def exampleOption_def
          exampleCapabilities_def mainOptionNames_def)
  have c: "compileOptions (groupDisplayNames exampleCapabilities)
             (cap_options exampleCapabilities) [] s = (Inr compiled, s1)"
    unfolding compiled_def s1_def by (rule example_compiled)
  have st1: "this_state s1 = exampleState Parameters sqlProfile" "events s1 =
       [LoggerLog ''Unhandled connection option type: multiselect'',
        ErrorEvent ''LoadConnectionProperties'' ''Unhandled connection option type: multiselect'']"
    by (simp_all add: s1_def s_def ctrlOf_def)
  have accounts: "getAccounts exampleEnv s1 = (Inr [\<lparr> opt_displayName = ''Alice'', opt_value = ''alice'' \<rparr>], s1)"
    by (simp add: getAccounts_def try_catch_def bnd_def await_def exampleEnv_def accountAlice_def)
  have buttons: "getAzureActionButtons exampleEnv (this_state s1) = Inr [signInButton]"
    unfolding st1
    by (simp add: getAzureActionButtons_def example_simps sqlProfile_def getProp_def SqlLogin_def
          AzureMFA_def)
  have look: "map_of compiled ''server'' = Some (snd (compiled ! 0))"
       "map_of compiled ''user'' = Some (snd (compiled ! 1))"
       "map_of compiled ''weird'' = Some (emptySpec\<lparr> isAdvancedOption := True,
            optionCategory := Some ''context'', optionCategoryLabel := Some (LabelText ''context'') \<rparr>)"
    unfolding compiled_def w by simp_all
  from complete_other[OF look(1) look(2) accounts refl buttons, of "''weird''"]
  obtain comps where comps: "completeFormComponents exampleEnv compiled s1 = (Inr comps, s1)"
      "map_of comps ''weird'' = map_of compiled ''weird''"
    by auto
  have "generateConnectionComponents exampleEnv s = (Inr comps, s1)"
    using c comps(1)
    by (simp add: generateConnectionComponents_def bnd_def await_def exampleEnv_def)
  then show ?thesis
    using comps(2) look(3) st1 unfolding s_def by simp
qed

end
